theory Spec2Isabelle
  imports Complex_Main
begin

section \<open>The chat route: values, errors and the provider\<close>

text \<open>
  The route file (the POST handler with \<open>generateText\<close>, \<open>generateImage\<close>,
  \<open>generateAudio\<close> and the response cache) is embedded function by function.
  A JavaScript string is a \<open>string\<close>: one \<open>char\<close> per UTF-16 code unit, for the
  code units below 256. Everything the handler awaits from outside (the provider's
  three endpoints, \<open>JSON.parse\<close>, \<open>Date.now\<close>, the environment variable) is a
  parameter of the model.
\<close>

subsection \<open>Error messages\<close>

definition MISSING_API_KEY :: string where
  "MISSING_API_KEY = ''Missing API key in server configuration.''"

definition INVALID_REQUEST :: string where
  "INVALID_REQUEST = ''Invalid request format or empty message.''"

definition PROCESSING_ERROR :: string where
  "PROCESSING_ERROR = ''An error occurred while processing your request.''"

definition MEDIA_ERROR :: string where
  "MEDIA_ERROR = ''Unable to process the uploaded media. Please try again.''"

definition NO_RESPONSE :: string where
  "NO_RESPONSE = ''Unable to generate a response. Please try again.''"

definition MODEL_ERROR :: string where
  "MODEL_ERROR = ''The language model is currently unavailable. Please try again later.''"

definition RATE_LIMIT :: string where
  "RATE_LIMIT = ''Rate limit exceeded. Please try again in a moment.''"

definition INVALID_API_KEY :: string where
  "INVALID_API_KEY = ''Invalid API key. Please check your API key configuration.''"

definition CONTENT_POLICY :: string where
  "CONTENT_POLICY = ''Your request could not be processed due to content policy restrictions.''"

definition REGION_ERROR :: string where
  "REGION_ERROR = ''OpenAI services are not available in your region. Please use a VPN or contact support.''"

subsection \<open>JSON values, thrown values, provider calls\<close>

text \<open>
  What \<open>JSON.parse\<close> can return. The \<open>history\<close> parameter of \<open>generateText\<close> is
  typed as an array in the source, but the handler passes on whatever was parsed, so
  the model lets it be any JSON value.
\<close>

datatype json =
    JNull
  | JBool bool
  | JNum real
  | JStr string
  | JArr "json list"
  | JObj "(string \<times> json) list"

text \<open>
  A thrown value: an \<open>OpenAI.APIError\<close> with its \<open>status\<close>, \<open>code\<close> and
  \<open>message\<close>; any other \<open>Error\<close> (also a \<open>TypeError\<close>) with its message; or a
  thrown value that is no \<open>Error\<close> at all. \<open>APIError\<close> extends \<open>Error\<close>.
\<close>

datatype js_error =
    APIError "nat option" "string option" string
  | Error string
  | NonError

fun instanceof_Error :: "js_error \<Rightarrow> bool" where
  "instanceof_Error NonError = False"
| "instanceof_Error _ = True"

fun instanceof_APIError :: "js_error \<Rightarrow> bool" where
  "instanceof_APIError (APIError s c m) = True"
| "instanceof_APIError _ = False"

fun error_message :: "js_error \<Rightarrow> string option" where
  "error_message (APIError s c m) = Some m"
| "error_message (Error m) = Some m"
| "error_message NonError = None"

fun error_code :: "js_error \<Rightarrow> string option" where
  "error_code (APIError s c m) = c"
| "error_code _ = None"

definition REGION_CODE :: string where
  "REGION_CODE = ''unsupported_country_region_territory''"

text \<open>\<open>error instanceof OpenAI.APIError && error.code === 'unsupported_country_region_territory'\<close>\<close>

definition is_region_APIError :: "js_error \<Rightarrow> bool" where
  "is_region_APIError e = (instanceof_APIError e \<and> error_code e = Some REGION_CODE)"

datatype voice = Alloy | Echo | Fable | Onyx | Nova | Shimmer

datatype kind = Text | Image | Audio

text \<open>
  The requests the handler sends upstream. Of a chat completion the message array and
  \<open>max_tokens\<close> are kept (model, temperature and penalties are constants of the
  source); of an image request the prompt; of a speech request the voice and the input.
\<close>

datatype call =
    ChatCall "json list" nat
  | ImageCall string
  | SpeechCall voice string

text \<open>
  The provider. Each endpoint answers a request given the requests made before it, with
  a thrown value (\<open>Inl\<close>) or a result (\<open>Inr\<close>):
  \<^item> \<open>chat_create\<close>: \<open>choices[0]?.message?.content\<close> of the completion,
    \<open>None\<close> when it is undefined or null;
  \<^item> \<open>images_generate\<close>: \<open>response.data[0]?.b64_json\<close>, likewise;
  \<^item> \<open>speech_create\<close>: the base64 text of the returned audio bytes.
\<close>

record provider =
  chat_create :: "call list \<Rightarrow> json list \<Rightarrow> nat \<Rightarrow> js_error + string option"
  images_generate :: "call list \<Rightarrow> string \<Rightarrow> js_error + string option"
  speech_create :: "call list \<Rightarrow> voice \<Rightarrow> string \<Rightarrow> js_error + string"

text \<open>
  The server's state: \<open>responseCache\<close>, a map from key to payload and timestamp, and
  the list of requests sent upstream so far. The list is instrumentation: the program
  has no such variable, it is what lets a theorem say that no upstream call was made.
\<close>

record state =
  responseCache :: "string \<rightharpoonup> (string \<times> int)"
  calls :: "call list"

subsection \<open>The response cache\<close>

definition CACHE_TTL :: int where
  "CACHE_TTL = 5 * 60 * 1000"

fun kind_name :: "kind \<Rightarrow> string" where
  "kind_name Text = ''text''"
| "kind_name Image = ''image''"
| "kind_name Audio = ''audio''"

definition generateCacheKey :: "string \<Rightarrow> kind \<Rightarrow> string" where
  "generateCacheKey prompt type = kind_name type @ '':'' @ prompt"

text \<open>
  The \<open>catch\<close> block shared by \<open>generateImage\<close> and \<open>generateAudio\<close>: whatever was
  thrown inside the \<open>try\<close> is replaced by a new \<open>Error\<close>.
\<close>

definition media_catch :: "js_error \<Rightarrow> js_error" where
  "media_catch e = (if is_region_APIError e then Error REGION_ERROR else Error MEDIA_ERROR)"

text \<open>
  \<open>generateImage\<close>. \<open>now_lookup\<close> and \<open>now_store\<close> are what \<open>Date.now()\<close> returns at
  the cache test and at \<open>responseCache.set\<close>. \<open>generateImage_try\<close> is the
  \<open>try\<close>/\<open>catch\<close> statement after the cache test.
\<close>

definition generateImage_try ::
  "provider \<Rightarrow> int \<Rightarrow> string \<Rightarrow> string \<Rightarrow> state \<Rightarrow> (js_error + string) \<times> state" where
  "generateImage_try openai now_store prompt cacheKey st =
     (let st1 = st\<lparr>calls := calls st @ [ImageCall prompt]\<rparr> in
      case images_generate openai (calls st) prompt of
        Inl e \<Rightarrow> (Inl (media_catch e), st1)
      | Inr None \<Rightarrow> (Inl (media_catch (Error NO_RESPONSE)), st1)
      | Inr (Some base64Image) \<Rightarrow>
          if base64Image = [] then (Inl (media_catch (Error NO_RESPONSE)), st1)
          else (Inr base64Image,
                st1\<lparr>responseCache := (responseCache st1)(cacheKey \<mapsto> (base64Image, now_store))\<rparr>))"

definition generateImage ::
  "provider \<Rightarrow> int \<Rightarrow> int \<Rightarrow> string \<Rightarrow> state \<Rightarrow> (js_error + string) \<times> state" where
  "generateImage openai now_lookup now_store prompt st =
     (let cacheKey = generateCacheKey prompt Image in
      case responseCache st cacheKey of
        None \<Rightarrow> generateImage_try openai now_store prompt cacheKey st
      | Some (data, timestamp) \<Rightarrow>
          if now_lookup - timestamp < CACHE_TTL then (Inr data, st)
          else generateImage_try openai now_store prompt cacheKey st)"

text \<open>The voice chosen at the head of the \<open>try\<close> block of \<open>generateAudio\<close>.\<close>

definition select_voice :: "string \<Rightarrow> voice" where
  "select_voice text =
     (if CHR ''?'' \<in> set text then Shimmer
      else if length text > 200 then Onyx
      else if CHR ''!'' \<in> set text then Fable
      else Nova)"

definition generateAudio_try ::
  "provider \<Rightarrow> int \<Rightarrow> string \<Rightarrow> string \<Rightarrow> state \<Rightarrow> (js_error + string) \<times> state" where
  "generateAudio_try openai now_store text cacheKey st =
     (let voice = select_voice text;
          st1 = st\<lparr>calls := calls st @ [SpeechCall voice text]\<rparr> in
      case speech_create openai (calls st) voice text of
        Inl e \<Rightarrow> (Inl (media_catch e), st1)
      | Inr base64Audio \<Rightarrow>
          (Inr base64Audio,
           st1\<lparr>responseCache := (responseCache st1)(cacheKey \<mapsto> (base64Audio, now_store))\<rparr>))"

definition generateAudio ::
  "provider \<Rightarrow> int \<Rightarrow> int \<Rightarrow> string \<Rightarrow> state \<Rightarrow> (js_error + string) \<times> state" where
  "generateAudio openai now_lookup now_store text st =
     (let cacheKey = generateCacheKey text Audio in
      case responseCache st cacheKey of
        None \<Rightarrow> generateAudio_try openai now_store text cacheKey st
      | Some (data, timestamp) \<Rightarrow>
          if now_lookup - timestamp < CACHE_TTL then (Inr data, st)
          else generateAudio_try openai now_store text cacheKey st)"

subsection \<open>Intent patterns\<close>

text \<open>
  \<open>/a|b|c/i.test(s)\<close> for alternatives that are literal texts: some alternative
  occurs in \<open>s\<close> as a substring, compared after canonicalisation. Without the \<open>u\<close>
  flag the canonical form of a code unit is its upper case, and no code unit outside
  ASCII is mapped to an ASCII one, so only the letters \<open>a\<close> to \<open>z\<close> change. The
  canonical form is given by its code.
\<close>

definition canonicalize :: "char \<Rightarrow> nat" where
  "canonicalize c = (let n = of_char c in if 97 \<le> n \<and> n \<le> 122 then n - 32 else n)"

fun matches_at :: "string \<Rightarrow> string \<Rightarrow> bool" where
  "matches_at [] s = True"
| "matches_at (p # ps) [] = False"
| "matches_at (p # ps) (c # cs) = (canonicalize p = canonicalize c \<and> matches_at ps cs)"

fun matches_somewhere :: "string \<Rightarrow> string \<Rightarrow> bool" where
  "matches_somewhere pat [] = matches_at pat []"
| "matches_somewhere pat (c # cs) = (matches_at pat (c # cs) \<or> matches_somewhere pat cs)"

definition regex_test :: "string list \<Rightarrow> string \<Rightarrow> bool" where
  "regex_test alternatives s = list_ex (\<lambda>pat. matches_somewhere pat s) alternatives"

definition isImageRequest :: "string \<Rightarrow> bool" where
  "isImageRequest prompt =
     (regex_test [''generate'', ''create'', ''make'', ''draw'', ''show'', ''give me'', ''imagine''] prompt \<and>
      regex_test [''image'', ''picture'', ''photo'', ''artwork'', ''drawing'', ''illustration'', ''logo'', ''icon''] prompt)"

definition isAudioRequest :: "string \<Rightarrow> bool" where
  "isAudioRequest prompt =
     (regex_test [''generate'', ''create'', ''make'', ''speak'', ''say'', ''tell'', ''read''] prompt \<and>
      regex_test [''audio'', ''speech'', ''voice'', ''sound'', ''speak'', ''talk''] prompt)"

subsection \<open>generateText\<close>

text \<open>\<open>xs.slice(-5)\<close> on an array or a string: the last five elements, all of them when there are fewer.\<close>

definition slice_last5 :: "'a list \<Rightarrow> 'a list" where
  "slice_last5 xs = drop (length xs - 5) xs"

text \<open>
  \<open>const recentHistory = history.slice(-5)\<close>, given as the elements that the spread
  \<open>...recentHistory\<close> then puts into the message array. An array has \<open>slice\<close> and
  spreads to its elements; a string has \<open>slice\<close> too and spreads to its one-character
  strings. On \<open>null\<close> the property read throws; a number, a boolean and an object made
  by \<open>JSON.parse\<close> have no function \<open>slice\<close>, so the call throws. Both are
  \<open>TypeError\<close>s, with the engine's message.
\<close>

fun recentHistory :: "json \<Rightarrow> js_error + json list" where
  "recentHistory (JArr xs) = Inr (slice_last5 xs)"
| "recentHistory (JStr s) = Inr (map (\<lambda>c. JStr [c]) (slice_last5 s))"
| "recentHistory JNull = Inl (Error ''Cannot read properties of null (reading 'slice')'')"
| "recentHistory (JBool b) = Inl (Error ''history.slice is not a function'')"
| "recentHistory (JNum n) = Inl (Error ''history.slice is not a function'')"
| "recentHistory (JObj kvs) = Inl (Error ''history.slice is not a function'')"

definition user_message :: "string \<Rightarrow> json" where
  "user_message prompt = JObj [(''role'', JStr ''user''), (''content'', JStr prompt)]"

definition imagePrompt_message :: json where
  "imagePrompt_message = JObj
     [(''role'', JStr ''system''),
      (''content'', JStr ''Create a concise image description for DALL-E 3. Focus on key visual elements. Keep it under 100 words.''),
      (''name'', JStr ''imagePrompt'')]"

definition audioPrompt_message :: json where
  "audioPrompt_message = JObj
     [(''role'', JStr ''system''),
      (''content'', JStr ''Generate a brief, natural response for text-to-speech. Keep it under 100 words.''),
      (''name'', JStr ''audioPrompt'')]"

text \<open>The envelope \<open>{type, content, url?}\<close> that \<open>generateText\<close> returns.\<close>

record envelope =
  etype :: kind
  content :: string
  url :: "string option"

definition region_envelope :: envelope where
  "region_envelope = \<lparr>etype = Text, content = REGION_ERROR, url = None\<rparr>"

text \<open>
  The two \<open>catch\<close> blocks of \<open>generateText\<close>. The inner one (around the image flow and
  around the audio flow) turns an \<open>Error\<close> whose message is the region message into the
  region envelope and rethrows everything else; the outer one does the same for an
  \<open>APIError\<close> with the region code. What the inner block rethrows reaches the outer one.
\<close>

definition outer_catch :: "js_error \<Rightarrow> js_error + envelope" where
  "outer_catch e = (if is_region_APIError e then Inr region_envelope else Inl e)"

definition inner_catch :: "js_error \<Rightarrow> js_error + envelope" where
  "inner_catch e =
     (if instanceof_Error e \<and> error_message e = Some REGION_ERROR then Inr region_envelope
      else outer_catch e)"

text \<open>The bodies of the three flows; a \<open>throw\<close> inside is the value \<open>Inl\<close>.\<close>

definition image_flow ::
  "provider \<Rightarrow> int \<Rightarrow> int \<Rightarrow> string \<Rightarrow> json list \<Rightarrow> state \<Rightarrow> (js_error + envelope) \<times> state" where
  "image_flow openai now_lookup now_store prompt recent st =
     (let messages = recent @ [user_message prompt, imagePrompt_message];
          st1 = st\<lparr>calls := calls st @ [ChatCall messages 150]\<rparr> in
      case chat_create openai (calls st) messages 150 of
        Inl e \<Rightarrow> (Inl e, st1)
      | Inr None \<Rightarrow> (Inl (Error NO_RESPONSE), st1)
      | Inr (Some imagePrompt) \<Rightarrow>
          if imagePrompt = [] then (Inl (Error NO_RESPONSE), st1)
          else (case generateImage openai now_lookup now_store imagePrompt st1 of
                  (Inl e, st2) \<Rightarrow> (Inl e, st2)
                | (Inr imageBase64, st2) \<Rightarrow>
                    (Inr \<lparr>etype = Image,
                          content = ''Here's the generated image based on your request.'',
                          url = Some (''data:image/png;base64,'' @ imageBase64)\<rparr>, st2)))"

definition audio_flow ::
  "provider \<Rightarrow> int \<Rightarrow> int \<Rightarrow> string \<Rightarrow> json list \<Rightarrow> state \<Rightarrow> (js_error + envelope) \<times> state" where
  "audio_flow openai now_lookup now_store prompt recent st =
     (let messages = recent @ [user_message prompt, audioPrompt_message];
          st1 = st\<lparr>calls := calls st @ [ChatCall messages 150]\<rparr> in
      case chat_create openai (calls st) messages 150 of
        Inl e \<Rightarrow> (Inl e, st1)
      | Inr None \<Rightarrow> (Inl (Error NO_RESPONSE), st1)
      | Inr (Some textContent) \<Rightarrow>
          if textContent = [] then (Inl (Error NO_RESPONSE), st1)
          else (case generateAudio openai now_lookup now_store textContent st1 of
                  (Inl e, st2) \<Rightarrow> (Inl e, st2)
                | (Inr audioBase64, st2) \<Rightarrow>
                    (Inr \<lparr>etype = Audio,
                          content = textContent,
                          url = Some (''data:audio/mp3;base64,'' @ audioBase64)\<rparr>, st2)))"

definition text_flow ::
  "provider \<Rightarrow> string \<Rightarrow> json list \<Rightarrow> state \<Rightarrow> (js_error + envelope) \<times> state" where
  "text_flow openai prompt recent st =
     (let messages = recent @ [user_message prompt];
          st1 = st\<lparr>calls := calls st @ [ChatCall messages 500]\<rparr> in
      case chat_create openai (calls st) messages 500 of
        Inl e \<Rightarrow> (Inl e, st1)
      | Inr None \<Rightarrow> (Inl (Error NO_RESPONSE), st1)
      | Inr (Some reply) \<Rightarrow>
          if reply = [] then (Inl (Error NO_RESPONSE), st1)
          else (Inr \<lparr>etype = Text, content = reply, url = None\<rparr>, st1))"

definition generateText ::
  "provider \<Rightarrow> int \<Rightarrow> int \<Rightarrow> string \<Rightarrow> json \<Rightarrow> state \<Rightarrow> (js_error + envelope) \<times> state" where
  "generateText openai now_lookup now_store prompt history st =
     (case recentHistory history of
        Inl e \<Rightarrow> (outer_catch e, st)
      | Inr recent \<Rightarrow>
          if isImageRequest prompt then
            (case image_flow openai now_lookup now_store prompt recent st of
               (Inl e, st') \<Rightarrow> (inner_catch e, st')
             | (Inr response, st') \<Rightarrow> (Inr response, st'))
          else if isAudioRequest prompt then
            (case audio_flow openai now_lookup now_store prompt recent st of
               (Inl e, st') \<Rightarrow> (inner_catch e, st')
             | (Inr response, st') \<Rightarrow> (Inr response, st'))
          else
            (case text_flow openai prompt recent st of
               (Inl e, st') \<Rightarrow> (outer_catch e, st')
             | (Inr response, st') \<Rightarrow> (Inr response, st')))"

subsection \<open>The POST handler\<close>

text \<open>
  A value of \<open>formData.get\<close> is a string or a \<open>File\<close>; \<open>None\<close> is its \<open>null\<close>. A
  request is what \<open>await req.formData()\<close> gives: a thrown value when the body does not
  decode, or the values of the two fields the handler reads.
\<close>

datatype form_value = FString string | FFile

record form =
  message :: "form_value option"
  history :: "form_value option"

type_synonym request = "js_error + form"

datatype body = Reply envelope | ErrorBody string

datatype response = Response nat body

text \<open>
  The server around the handler: \<open>process.env.OPENAI_API_KEY\<close>, the builtin
  \<open>JSON.parse\<close> (\<open>None\<close> when it throws its \<open>SyntaxError\<close>) and the provider.
\<close>

record server =
  OPENAI_API_KEY :: "string option"
  JSON_parse :: "string \<Rightarrow> json option"
  openai :: provider

text \<open>
  \<open>String.prototype.trim\<close> removes white space and line terminators at both ends;
  below 256 these are the code units 9 to 13, 32 and 160.
\<close>

definition is_space :: "char \<Rightarrow> bool" where
  "is_space c = (let n = (of_char c :: nat) in (9 \<le> n \<and> n \<le> 13) \<or> n = 32 \<or> n = 160)"

definition trim :: "string \<Rightarrow> string" where
  "trim s = rev (dropWhile is_space (rev (dropWhile is_space s)))"

text \<open>\<open>!message || typeof message !== 'string' || !message.trim()\<close>\<close>

fun invalid_message :: "form_value option \<Rightarrow> bool" where
  "invalid_message None = True"
| "invalid_message (Some FFile) = True"
| "invalid_message (Some (FString s)) = (s = [] \<or> trim s = [])"

text \<open>
  The \<open>history\<close> variable after the \<open>try\<close> around \<open>JSON.parse\<close>: the empty array
  unless the field is a non-empty string that parses; a parse error is logged and
  swallowed.
\<close>

fun parse_history :: "(string \<Rightarrow> json option) \<Rightarrow> form_value option \<Rightarrow> json" where
  "parse_history parse (Some (FString historyStr)) =
     (if historyStr = [] then JArr []
      else case parse historyStr of None \<Rightarrow> JArr [] | Some v \<Rightarrow> v)"
| "parse_history parse _ = JArr []"

text \<open>
  \<open>NextResponse.json(body, {status})\<close> builds the response through the \<open>Response\<close>
  constructor, which throws a \<open>RangeError\<close> for a status outside 200 to 599 and a
  \<open>TypeError\<close> for a body together with one of the null-body statuses 204, 205 and 304
  (101, the fourth, is already out of range). The messages are the runtime's. With the
  constant statuses 200, 400 and 500 of the handler the call cannot throw, and the
  response is written down directly there.
\<close>

definition NextResponse_json :: "body \<Rightarrow> nat \<Rightarrow> js_error + response" where
  \<open>NextResponse_json b status =
     (if status < 200 \<or> 599 < status
      then Inl (Error ''init["status"] must be in the range of 200 to 599, inclusive.'')
      else if status = 204 then Inl (Error ''Response constructor: Invalid response status code 204'')
      else if status = 205 then Inl (Error ''Response constructor: Invalid response status code 205'')
      else if status = 304 then Inl (Error ''Response constructor: Invalid response status code 304'')
      else Inr (Response status b))\<close>

text \<open>
  The \<open>catch\<close> block around the call of \<open>generateText\<close>. Only an \<open>APIError\<close> brings a
  status of its own, so only there can building the response throw.
\<close>

fun error_response :: "js_error \<Rightarrow> js_error + response" where
  "error_response (APIError status code msg) =
     (let status' = (case status of None \<Rightarrow> 500 | Some n \<Rightarrow> if n = 0 then 500 else n);
          errorMessage = MODEL_ERROR;
          errorMessage = (if status = Some 401 then INVALID_API_KEY else errorMessage);
          errorMessage = (if status = Some 429 then RATE_LIMIT else errorMessage) in
      if code = Some ''content_policy_violation''
      then NextResponse_json (ErrorBody CONTENT_POLICY) 400
      else NextResponse_json
             (ErrorBody (if code = Some REGION_CODE then REGION_ERROR else errorMessage)) status')"
| "error_response (Error msg) = NextResponse_json (ErrorBody msg) 500"
| "error_response NonError = NextResponse_json (ErrorBody PROCESSING_ERROR) 500"

text \<open>
  The outermost \<open>catch\<close> of the handler: status 500 with the message of the thrown
  \<open>Error\<close>, or the generic message for a thrown value that is no \<open>Error\<close>.
\<close>

definition POST_catch :: "js_error \<Rightarrow> response" where
  "POST_catch e =
     Response 500 (ErrorBody (case error_message e of Some m \<Rightarrow> m | None \<Rightarrow> PROCESSING_ERROR))"

text \<open>
  The inner \<open>try\<close> of the handler: generate, answer with the envelope or map the error.
  What is thrown while the \<open>catch\<close> block builds its response leaves the inner \<open>try\<close>
  and is answered by the outermost \<open>catch\<close>.
\<close>

definition POST_generate ::
  "server \<Rightarrow> int \<Rightarrow> int \<Rightarrow> string \<Rightarrow> json \<Rightarrow> state \<Rightarrow> response \<times> state" where
  "POST_generate srv now_lookup now_store msg hist st =
     (case generateText (openai srv) now_lookup now_store msg hist st of
        (Inr response, st') \<Rightarrow> (Response 200 (Reply response), st')
      | (Inl e, st') \<Rightarrow>
          (case error_response e of
             Inr response \<Rightarrow> (response, st')
           | Inl thrown \<Rightarrow> (POST_catch thrown, st')))"

definition falsy :: "string option \<Rightarrow> bool" where
  "falsy v = (v = None \<or> v = Some [])"

definition POST :: "server \<Rightarrow> int \<Rightarrow> int \<Rightarrow> request \<Rightarrow> state \<Rightarrow> response \<times> state" where
  "POST srv now_lookup now_store req st =
     (if falsy (OPENAI_API_KEY srv) then (Response 500 (ErrorBody MISSING_API_KEY), st)
      else case req of
        Inl e \<Rightarrow> (POST_catch e, st)
      | Inr formData \<Rightarrow>
          (case message formData of
             Some (FString msg) \<Rightarrow>
               if invalid_message (message formData)
               then (Response 400 (ErrorBody INVALID_REQUEST), st)
               else POST_generate srv now_lookup now_store msg
                      (parse_history (JSON_parse srv) (history formData)) st
           | _ \<Rightarrow> (Response 400 (ErrorBody INVALID_REQUEST), st)))"

subsection \<open>What the provider raised\<close>

text \<open>
  For statements about provider errors: the thrown value, if any, with which the
  provider answers a request made after the requests \<open>before\<close>; and the thrown values
  met by the requests \<open>new\<close> made one after the other after \<open>before\<close>.
\<close>

fun raised :: "provider \<Rightarrow> call list \<Rightarrow> call \<Rightarrow> js_error option" where
  "raised prov before (ChatCall messages max_tokens) =
     (case chat_create prov before messages max_tokens of Inl e \<Rightarrow> Some e | Inr r \<Rightarrow> None)"
| "raised prov before (ImageCall prompt) =
     (case images_generate prov before prompt of Inl e \<Rightarrow> Some e | Inr r \<Rightarrow> None)"
| "raised prov before (SpeechCall voice input) =
     (case speech_create prov before voice input of Inl e \<Rightarrow> Some e | Inr r \<Rightarrow> None)"

fun provider_errors :: "provider \<Rightarrow> call list \<Rightarrow> call list \<Rightarrow> js_error list" where
  "provider_errors prov before [] = []"
| "provider_errors prov before (c # cs) =
     (case raised prov before c of None \<Rightarrow> [] | Some e \<Rightarrow> [e]) @ provider_errors prov (before @ [c]) cs"

section \<open>Sample runs\<close>

text \<open>
  A provider that always answers, and the server state at start-up; the theorems below
  are instantiated on them.
\<close>

definition demo_provider :: provider where
  "demo_provider =
     \<lparr>chat_create = (\<lambda>before messages max_tokens. Inr (Some ''Is it raining?'')),
      images_generate = (\<lambda>before prompt. Inr (Some ''aW1hZ2U='')),
      speech_create = (\<lambda>before voice input. Inr ''c291bmQ='')\<rparr>"

definition fresh_state :: state where
  "fresh_state = \<lparr>responseCache = Map.empty, calls = []\<rparr>"



text \<open>A history of seven turns.\<close>

definition seven_turns :: "json list" where
  "seven_turns = map (\<lambda>s. JObj [(''role'', JStr ''user''), (''content'', JStr s)])
     [''one'', ''two'', ''three'', ''four'', ''five'', ''six'', ''seven'']"

text \<open>
  The values of \<open>JSON.parse\<close> on the texts that the sample runs hand to it: the
  empty array, the empty string, a number, \<open>null\<close>, \<open>true\<close> and the empty object.
  The sample runs use no text outside this table except \<open>[oops\<close>, on which the
  builtin throws its \<open>SyntaxError\<close>; the table's answer \<open>None\<close> elsewhere is not a
  statement about the builtin.
\<close>

definition sample_JSON_parse :: "string \<Rightarrow> json option" where
  \<open>sample_JSON_parse s =
     (if s = ''[]'' then Some (JArr [])
      else if s = ''""'' then Some (JStr [])
      else if s = ''42'' then Some (JNum 42)
      else if s = ''null'' then Some JNull
      else if s = ''true'' then Some (JBool True)
      else if s = ''{}'' then Some (JObj [])
      else None)\<close>

text \<open>
  A provider whose completions work while image and speech synthesis are refused with
  the region code, and a server with a key around a given provider.
\<close>

definition blocked_provider :: provider where
  "blocked_provider =
     \<lparr>chat_create = (\<lambda>before messages max_tokens. Inr (Some ''A red fox in the snow'')),
      images_generate = (\<lambda>before prompt.
        Inl (APIError (Some 403) (Some ''unsupported_country_region_territory'')
               ''Country, region, or territory not supported'')),
      speech_create = (\<lambda>before voice input.
        Inl (APIError (Some 403) (Some ''unsupported_country_region_territory'')
               ''Country, region, or territory not supported''))\<rparr>"

definition sample_server :: "provider \<Rightarrow> server" where
  "sample_server prov =
     \<lparr>OPENAI_API_KEY = Some ''sk-sample'', JSON_parse = sample_JSON_parse, openai = prov\<rparr>"

text \<open>The sample server without its environment variable.\<close>

definition keyless_server :: server where
  "keyless_server =
     \<lparr>OPENAI_API_KEY = None, JSON_parse = sample_JSON_parse, openai = demo_provider\<rparr>"

text \<open>
  A provider whose answers carry no content, and one whose completions fail with
  status 503 and no code.
\<close>

definition silent_provider :: provider where
  "silent_provider =
     \<lparr>chat_create = (\<lambda>before messages max_tokens. Inr None),
      images_generate = (\<lambda>before prompt. Inr None),
      speech_create = (\<lambda>before voice input. Inr [])\<rparr>"

definition overloaded_provider :: provider where
  "overloaded_provider =
     \<lparr>chat_create = (\<lambda>before messages max_tokens.
        Inl (APIError (Some 503) None ''The server is overloaded'')),
      images_generate = (\<lambda>before prompt. Inr None),
      speech_create = (\<lambda>before voice input. Inr [])\<rparr>"

text \<open>
  A provider whose completion depends on the conversation: with no history in front of
  the prompt (two messages in the image and audio flows) it describes a fox, otherwise
  a whale; its image endpoint draws what it is told. With it, a history of one turn,
  and the states after a first image request and after a first speech request, both
  made at start-up with an empty history and stored at time 1000.
\<close>

definition context_provider :: provider where
  "context_provider =
     \<lparr>chat_create = (\<lambda>before messages max_tokens.
        Inr (Some (if length messages = 2 then ''a red fox'' else ''a blue whale''))),
      images_generate = (\<lambda>before prompt.
        Inr (Some (if prompt = ''a red fox'' then ''Zm94'' else ''d2hhbGU=''))),
      speech_create = (\<lambda>before voice input. Inr ''c291bmQ='')\<rparr>"

definition one_turn :: "json list" where
  "one_turn = [JObj [(''role'', JStr ''user''), (''content'', JStr ''I like whales'')]]"

definition after_first :: state where
  "after_first = snd (generateText context_provider 0 1000 ''Draw a picture of it'' (JArr []) fresh_state)"

definition after_speech :: state where
  "after_speech = snd (generateText context_provider 0 1000 ''Say it with your voice'' (JArr []) fresh_state)"

text \<open>
  A provider whose completions work while image and speech synthesis fail with status
  503 and no code, and one whose completions fail with a status that no response can
  carry.
\<close>

definition failing_media_provider :: provider where
  "failing_media_provider =
     \<lparr>chat_create = (\<lambda>before messages max_tokens. Inr (Some ''A red fox in the snow'')),
      images_generate = (\<lambda>before prompt.
        Inl (APIError (Some 503) None ''The server is overloaded'')),
      speech_create = (\<lambda>before voice input.
        Inl (APIError (Some 503) None ''The server is overloaded''))\<rparr>"

definition odd_status_provider :: provider where
  "odd_status_provider =
     \<lparr>chat_create = (\<lambda>before messages max_tokens.
        Inl (APIError (Some 700) None ''Unknown failure'')),
      images_generate = (\<lambda>before prompt. Inr None),
      speech_create = (\<lambda>before voice input. Inr [])\<rparr>"

section \<open>Properties\<close>

subsection \<open>Voice selection\<close>

lemma generateAudio_try_calls:
  "calls (snd (generateAudio_try prov now_store input cacheKey st)) =
     calls st @ [SpeechCall (select_voice input) input]"
  by (simp add: generateAudio_try_def Let_def split: sum.split)

text \<open>
  C9. Whenever \<open>generateAudio\<close> does not answer from the cache (no entry, or an entry
  at least five minutes old), it sends exactly one speech request, for the text it was
  given, and the voice of that request is fixed by the text alone: Shimmer when the text
  contains a question mark; otherwise Onyx when it is longer than 200 code units;
  otherwise Fable when it contains an exclamation mark; otherwise Nova. The four cases
  exclude each other and cover every text.
\<close>

theorem voice_selection:
  assumes "case responseCache st (generateCacheKey input Audio) of
             None \<Rightarrow> True | Some (d, t) \<Rightarrow> 5 * 60 * 1000 \<le> now_lookup - t"
  shows "\<exists>v. calls (snd (generateAudio prov now_lookup now_store input st)) =
               calls st @ [SpeechCall v input] \<and>
             (CHR ''?'' \<in> set input \<longrightarrow> v = Shimmer) \<and>
             (CHR ''?'' \<notin> set input \<and> 200 < length input \<longrightarrow> v = Onyx) \<and>
             (CHR ''?'' \<notin> set input \<and> length input \<le> 200 \<and> CHR ''!'' \<in> set input \<longrightarrow> v = Fable) \<and>
             (CHR ''?'' \<notin> set input \<and> length input \<le> 200 \<and> CHR ''!'' \<notin> set input \<longrightarrow> v = Nova)"
proof -
  have "generateAudio prov now_lookup now_store input st =
        generateAudio_try prov now_store input (generateCacheKey input Audio) st"
    using assms by (auto simp: generateAudio_def CACHE_TTL_def split: option.splits)
  then have "calls (snd (generateAudio prov now_lookup now_store input st)) =
             calls st @ [SpeechCall (select_voice input) input]"
    by (simp add: generateAudio_try_calls)
  then show ?thesis
    by (auto simp: select_voice_def)
qed

theorem voice_selection_witness:
  "calls (snd (generateAudio demo_provider 0 0 ''Is it raining?'' fresh_state)) =
     [SpeechCall Shimmer ''Is it raining?'']"
  using voice_selection [where st = fresh_state and input = "''Is it raining?''"
      and now_lookup = 0 and prov = demo_provider and now_store = 0]
  by (auto simp: fresh_state_def)

subsection \<open>The response cache\<close>

lemma generateImage_try_calls:
  "calls (snd (generateImage_try prov now_store p cacheKey st)) = calls st @ [ImageCall p]"
  by (simp add: generateImage_try_def Let_def split: sum.split option.split)





lemma generateImage_cases:
  "generateImage prov now_lookup now_store p st =
     (case responseCache st (generateCacheKey p Image) of
        None \<Rightarrow> generateImage_try prov now_store p (generateCacheKey p Image) st
      | Some (d, t) \<Rightarrow>
          if now_lookup - t < 300000 then (Inr d, st)
          else generateImage_try prov now_store p (generateCacheKey p Image) st)"
  by (simp add: generateImage_def CACHE_TTL_def Let_def split: option.split)

lemma generateAudio_cases:
  "generateAudio prov now_lookup now_store p st =
     (case responseCache st (generateCacheKey p Audio) of
        None \<Rightarrow> generateAudio_try prov now_store p (generateCacheKey p Audio) st
      | Some (d, t) \<Rightarrow>
          if now_lookup - t < 300000 then (Inr d, st)
          else generateAudio_try prov now_store p (generateCacheKey p Audio) st)"
  by (simp add: generateAudio_def CACHE_TTL_def Let_def split: option.split)







subsection \<open>The requests sent by generateText\<close>

lemma generateImage_calls:
  "calls (snd (generateImage prov now_lookup now_store q st)) = calls st \<or>
   calls (snd (generateImage prov now_lookup now_store q st)) = calls st @ [ImageCall q]"
  by (simp add: generateImage_cases generateImage_try_calls split: option.split)

lemma generateAudio_calls:
  "calls (snd (generateAudio prov now_lookup now_store q st)) = calls st \<or>
   calls (snd (generateAudio prov now_lookup now_store q st)) =
     calls st @ [SpeechCall (select_voice q) q]"
  by (simp add: generateAudio_cases generateAudio_try_calls split: option.split)

lemma image_flow_calls:
  "\<exists>rest. calls (snd (image_flow prov now_lookup now_store p recent st)) =
            calls st @ ChatCall (recent @ [user_message p, imagePrompt_message]) 150 # rest \<and>
          (rest = [] \<or> (\<exists>q. rest = [ImageCall q]))"
proof (cases "chat_create prov (calls st) (recent @ [user_message p, imagePrompt_message]) 150")
  case (Inl e)
  then show ?thesis by (simp add: image_flow_def)
next
  case (Inr r)
  show ?thesis
  proof (cases "r = None \<or> r = Some []")
    case True
    with Inr show ?thesis by (auto simp: image_flow_def)
  next
    case False
    then obtain d where d: "r = Some d" "d \<noteq> []" by auto
    let ?st1 = "st\<lparr>calls := calls st @ [ChatCall (recent @ [user_message p, imagePrompt_message]) 150]\<rparr>"
    have "calls (snd (image_flow prov now_lookup now_store p recent st)) =
          calls (snd (generateImage prov now_lookup now_store d ?st1))"
      using Inr d by (simp add: image_flow_def Let_def split: prod.split sum.split)
    with generateImage_calls [of prov now_lookup now_store d ?st1] show ?thesis
      by auto
  qed
qed

lemma audio_flow_calls:
  "\<exists>rest. calls (snd (audio_flow prov now_lookup now_store p recent st)) =
            calls st @ ChatCall (recent @ [user_message p, audioPrompt_message]) 150 # rest \<and>
          (rest = [] \<or> (\<exists>v q. rest = [SpeechCall v q]))"
proof (cases "chat_create prov (calls st) (recent @ [user_message p, audioPrompt_message]) 150")
  case (Inl e)
  then show ?thesis by (simp add: audio_flow_def)
next
  case (Inr r)
  show ?thesis
  proof (cases "r = None \<or> r = Some []")
    case True
    with Inr show ?thesis by (auto simp: audio_flow_def)
  next
    case False
    then obtain d where d: "r = Some d" "d \<noteq> []" by auto
    let ?st1 = "st\<lparr>calls := calls st @ [ChatCall (recent @ [user_message p, audioPrompt_message]) 150]\<rparr>"
    have "calls (snd (audio_flow prov now_lookup now_store p recent st)) =
          calls (snd (generateAudio prov now_lookup now_store d ?st1))"
      using Inr d by (simp add: audio_flow_def Let_def split: prod.split sum.split)
    with generateAudio_calls [of prov now_lookup now_store d ?st1] show ?thesis
      by auto
  qed
qed

lemma text_flow_calls:
  "calls (snd (text_flow prov p recent st)) = calls st @ [ChatCall (recent @ [user_message p]) 500]"
  by (simp add: text_flow_def Let_def split: sum.split option.split)

lemma generateText_state:
  "snd (generateText prov now_lookup now_store p hist st) =
     (case recentHistory hist of
        Inl e \<Rightarrow> st
      | Inr recent \<Rightarrow>
          if isImageRequest p then snd (image_flow prov now_lookup now_store p recent st)
          else if isAudioRequest p then snd (audio_flow prov now_lookup now_store p recent st)
          else snd (text_flow prov p recent st))"
  by (simp add: generateText_def split: sum.split prod.split)

text \<open>
  C4. For every history array \<open>h\<close>, of any length, and every prompt: \<open>generateText\<close>
  sends exactly one completion request, and its message array is the last five
  entries of \<open>h\<close> (all of \<open>h\<close> when it has fewer), then the user's prompt, then at
  most one system message (the one of the image flow or of the audio flow). Whatever
  else is sent upstream is a single image or speech request, which carries no history.
\<close>

theorem history_bounded:
  "\<exists>system max_tokens rest.
     calls (snd (generateText prov now_lookup now_store p (JArr h) st)) =
       calls st @ ChatCall (drop (length h - 5) h @ user_message p # system) max_tokens # rest \<and>
     length (drop (length h - 5) h) \<le> 5 \<and>
     (system = [] \<or> system = [imagePrompt_message] \<or> system = [audioPrompt_message]) \<and>
     (rest = [] \<or> (\<exists>q. rest = [ImageCall q]) \<or> (\<exists>v q. rest = [SpeechCall v q]))"
proof -
  have len: "length (drop (length h - 5) h) \<le> 5" by simp
  consider (img) "isImageRequest p" | (aud) "\<not> isImageRequest p" "isAudioRequest p"
    | (plain) "\<not> isImageRequest p" "\<not> isAudioRequest p" by blast
  then show ?thesis
  proof cases
    case img
    with image_flow_calls [of prov now_lookup now_store p "slice_last5 h" st] len show ?thesis
      by (auto simp: generateText_state slice_last5_def)
  next
    case aud
    with audio_flow_calls [of prov now_lookup now_store p "slice_last5 h" st] len show ?thesis
      by (auto simp: generateText_state slice_last5_def)
  next
    case plain
    with text_flow_calls [of prov p "slice_last5 h" st] len show ?thesis
      by (auto simp: generateText_state slice_last5_def)
  qed
qed

theorem history_bounded_witness:
  "calls (snd (generateText demo_provider 0 0 ''Hello there'' (JArr seven_turns) fresh_state)) =
     [ChatCall (drop 2 seven_turns @ [user_message ''Hello there'']) 500]"
proof -
  have c: "\<not> isImageRequest ''Hello there''" "\<not> isAudioRequest ''Hello there''"
    by (simp_all add: isImageRequest_def isAudioRequest_def regex_test_def canonicalize_def)
  have l: "length seven_turns - 5 = 2" by (simp add: seven_turns_def)
  from history_bounded [where prov = demo_provider and now_lookup = 0 and now_store = 0
      and p = "''Hello there''" and h = seven_turns and st = fresh_state]
  obtain system max_tokens rest where
    *: "calls (snd (generateText demo_provider 0 0 ''Hello there'' (JArr seven_turns) fresh_state)) =
       calls fresh_state @ ChatCall (drop (length seven_turns - 5) seven_turns @ user_message ''Hello there'' # system) max_tokens # rest"
    by blast
  have "calls (snd (generateText demo_provider 0 0 ''Hello there'' (JArr seven_turns) fresh_state)) =
        [ChatCall (slice_last5 seven_turns @ [user_message ''Hello there'']) 500]"
    using c by (simp add: generateText_state text_flow_calls fresh_state_def)
  with * l show ?thesis by (simp add: slice_last5_def)
qed

subsection \<open>Image before audio\<close>

text \<open>
  C1. For every prompt that matches both the image patterns and the audio patterns,
  whatever the history, the provider and the cache: \<open>generateText\<close> never returns an
  envelope of type audio; when \<open>history.slice\<close> succeeds it runs the image flow, that
  is, its first request is the completion request ending in the image system message,
  followed by at most one image request, and no speech request is sent; when
  \<open>history.slice\<close> throws, nothing is sent at all.
\<close>

theorem image_before_audio:
  assumes "isImageRequest p" and "isAudioRequest p"
  shows "(case fst (generateText prov now_lookup now_store p hist st) of
            Inl e \<Rightarrow> True | Inr response \<Rightarrow> etype response \<noteq> Audio) \<and>
         (case recentHistory hist of
            Inl e \<Rightarrow> calls (snd (generateText prov now_lookup now_store p hist st)) = calls st
          | Inr recent \<Rightarrow>
              \<exists>rest. calls (snd (generateText prov now_lookup now_store p hist st)) =
                       calls st @ ChatCall (recent @ [user_message p, imagePrompt_message]) 150 # rest \<and>
                     (rest = [] \<or> (\<exists>q. rest = [ImageCall q])))"
proof -
  have "etype response \<noteq> Audio"
    if "fst (generateText prov now_lookup now_store p hist st) = Inr response" for response
    using that assms(1)
    by (auto simp: generateText_def image_flow_def outer_catch_def inner_catch_def
        region_envelope_def Let_def split: sum.splits prod.splits option.splits if_splits)
  moreover have "calls (snd (generateText prov now_lookup now_store p hist st)) = calls st"
    if "recentHistory hist = Inl e" for e
    using that by (simp add: generateText_state)
  moreover have "\<exists>rest. calls (snd (generateText prov now_lookup now_store p hist st)) =
                       calls st @ ChatCall (recent @ [user_message p, imagePrompt_message]) 150 # rest \<and>
                     (rest = [] \<or> (\<exists>q. rest = [ImageCall q]))"
    if "recentHistory hist = Inr recent" for recent
    using that assms(1) image_flow_calls [of prov now_lookup now_store p recent st]
    by (simp add: generateText_state)
  ultimately show ?thesis
    by (simp split: sum.split)
qed

theorem image_before_audio_witness:
  "isImageRequest ''Make a picture with sound'' \<and> isAudioRequest ''Make a picture with sound'' \<and>
   generateText demo_provider 0 1000 ''Make a picture with sound'' (JArr []) fresh_state =
     (Inr \<lparr>etype = Image, content = ''Here's the generated image based on your request.'',
           url = Some ''data:image/png;base64,aW1hZ2U=''\<rparr>,
      \<lparr>responseCache = [''image:Is it raining?'' \<mapsto> (''aW1hZ2U='', 1000)],
       calls = [ChatCall [user_message ''Make a picture with sound'', imagePrompt_message] 150,
                ImageCall ''Is it raining?'']\<rparr>)"
proof -
  have i: "isImageRequest ''Make a picture with sound''"
    by (simp add: isImageRequest_def regex_test_def canonicalize_def)
  have a: "isAudioRequest ''Make a picture with sound''"
    by (simp add: isAudioRequest_def regex_test_def canonicalize_def)
  note image_before_audio [OF i a, where prov = demo_provider and now_lookup = 0 and now_store = 1000
      and hist = "JArr []" and st = fresh_state]
  then obtain rest where
    c: "calls (snd (generateText demo_provider 0 1000 ''Make a picture with sound'' (JArr []) fresh_state)) =
        calls fresh_state @ ChatCall ([] @ [user_message ''Make a picture with sound'', imagePrompt_message]) 150 # rest"
    by (auto simp: slice_last5_def)
  have "generateText demo_provider 0 1000 ''Make a picture with sound'' (JArr []) fresh_state =
     (Inr \<lparr>etype = Image, content = ''Here's the generated image based on your request.'',
           url = Some ''data:image/png;base64,aW1hZ2U=''\<rparr>,
      \<lparr>responseCache = [''image:Is it raining?'' \<mapsto> (''aW1hZ2U='', 1000)],
       calls = [ChatCall [user_message ''Make a picture with sound'', imagePrompt_message] 150,
                ImageCall ''Is it raining?'']\<rparr>)"
    using i c
    by (simp add: generateText_def image_flow_def generateImage_def generateImage_try_def
        generateCacheKey_def demo_provider_def fresh_state_def slice_last5_def Let_def)
  with i a show ?thesis by simp
qed

subsection \<open>Region errors\<close>

lemma generateImage_region:
  assumes "list_ex is_region_APIError
             (provider_errors prov (calls st)
                (drop (length (calls st)) (calls (snd (generateImage prov now_lookup now_store q st)))))"
  shows "fst (generateImage prov now_lookup now_store q st) = Inl (Error REGION_ERROR)"
  using assms
  by (auto simp: generateImage_cases generateImage_try_def media_catch_def Let_def
      split: sum.splits option.splits if_splits)

lemma generateAudio_region:
  assumes "list_ex is_region_APIError
             (provider_errors prov (calls st)
                (drop (length (calls st)) (calls (snd (generateAudio prov now_lookup now_store q st)))))"
  shows "fst (generateAudio prov now_lookup now_store q st) = Inl (Error REGION_ERROR)"
  using assms
  by (auto simp: generateAudio_cases generateAudio_try_def media_catch_def Let_def
      split: sum.splits option.splits if_splits)

lemma inner_catch_region:
  "is_region_APIError e \<or> e = Error REGION_ERROR \<Longrightarrow> inner_catch e = Inr region_envelope"
  by (auto simp: inner_catch_def outer_catch_def)

lemma image_flow_region:
  assumes "list_ex is_region_APIError
             (provider_errors prov (calls st)
                (drop (length (calls st)) (calls (snd (image_flow prov now_lookup now_store p recent st)))))"
  shows "\<exists>e. fst (image_flow prov now_lookup now_store p recent st) = Inl e \<and>
             (is_region_APIError e \<or> e = Error REGION_ERROR)"
proof -
  let ?messages = "recent @ [user_message p, imagePrompt_message]"
  let ?st1 = "st\<lparr>calls := calls st @ [ChatCall ?messages 150]\<rparr>"
  show ?thesis
  proof (cases "chat_create prov (calls st) ?messages 150")
    case (Inl e)
    with assms show ?thesis by (simp add: image_flow_def)
  next
    case (Inr r)
    show ?thesis
    proof (cases "r = None \<or> r = Some []")
      case True
      with Inr assms show ?thesis by (auto simp: image_flow_def)
    next
      case False
      then obtain d where d: "r = Some d" "d \<noteq> []" by auto
      have flow: "image_flow prov now_lookup now_store p recent st =
                  (case generateImage prov now_lookup now_store d ?st1 of
                     (Inl e, st2) \<Rightarrow> (Inl e, st2)
                   | (Inr b, st2) \<Rightarrow>
                       (Inr \<lparr>etype = Image,
                             content = ''Here's the generated image based on your request.'',
                             url = Some (''data:image/png;base64,'' @ b)\<rparr>, st2))"
        using Inr d by (simp add: image_flow_def Let_def)
      then have st: "snd (image_flow prov now_lookup now_store p recent st) =
                 snd (generateImage prov now_lookup now_store d ?st1)"
        by (simp split: prod.split sum.split)
      have "list_ex is_region_APIError
              (provider_errors prov (calls ?st1)
                 (drop (length (calls ?st1)) (calls (snd (generateImage prov now_lookup now_store d ?st1)))))"
        using assms Inr generateImage_calls [of prov now_lookup now_store d ?st1]
        unfolding st by auto
      then have "fst (generateImage prov now_lookup now_store d ?st1) = Inl (Error REGION_ERROR)"
        by (rule generateImage_region)
      then show ?thesis
        unfolding flow by (auto split: prod.split sum.split)
    qed
  qed
qed

lemma audio_flow_region:
  assumes "list_ex is_region_APIError
             (provider_errors prov (calls st)
                (drop (length (calls st)) (calls (snd (audio_flow prov now_lookup now_store p recent st)))))"
  shows "\<exists>e. fst (audio_flow prov now_lookup now_store p recent st) = Inl e \<and>
             (is_region_APIError e \<or> e = Error REGION_ERROR)"
proof -
  let ?messages = "recent @ [user_message p, audioPrompt_message]"
  let ?st1 = "st\<lparr>calls := calls st @ [ChatCall ?messages 150]\<rparr>"
  show ?thesis
  proof (cases "chat_create prov (calls st) ?messages 150")
    case (Inl e)
    with assms show ?thesis by (simp add: audio_flow_def)
  next
    case (Inr r)
    show ?thesis
    proof (cases "r = None \<or> r = Some []")
      case True
      with Inr assms show ?thesis by (auto simp: audio_flow_def)
    next
      case False
      then obtain d where d: "r = Some d" "d \<noteq> []" by auto
      have flow: "audio_flow prov now_lookup now_store p recent st =
                  (case generateAudio prov now_lookup now_store d ?st1 of
                     (Inl e, st2) \<Rightarrow> (Inl e, st2)
                   | (Inr b, st2) \<Rightarrow>
                       (Inr \<lparr>etype = Audio, content = d,
                             url = Some (''data:audio/mp3;base64,'' @ b)\<rparr>, st2))"
        using Inr d by (simp add: audio_flow_def Let_def)
      then have st: "snd (audio_flow prov now_lookup now_store p recent st) =
                 snd (generateAudio prov now_lookup now_store d ?st1)"
        by (simp split: prod.split sum.split)
      have "list_ex is_region_APIError
              (provider_errors prov (calls ?st1)
                 (drop (length (calls ?st1)) (calls (snd (generateAudio prov now_lookup now_store d ?st1)))))"
        using assms Inr generateAudio_calls [of prov now_lookup now_store d ?st1]
        unfolding st by auto
      then have "fst (generateAudio prov now_lookup now_store d ?st1) = Inl (Error REGION_ERROR)"
        by (rule generateAudio_region)
      then show ?thesis
        unfolding flow by (auto split: prod.split sum.split)
    qed
  qed
qed

lemma text_flow_region:
  assumes "list_ex is_region_APIError
             (provider_errors prov (calls st)
                (drop (length (calls st)) (calls (snd (text_flow prov p recent st)))))"
  shows "\<exists>e. fst (text_flow prov p recent st) = Inl e \<and> is_region_APIError e"
  using assms
  by (auto simp: text_flow_def Let_def split: sum.splits option.splits if_splits)

lemma generateText_region:
  assumes "list_ex is_region_APIError
             (provider_errors prov (calls st)
                (drop (length (calls st)) (calls (snd (generateText prov now_lookup now_store p hist st)))))"
  shows "fst (generateText prov now_lookup now_store p hist st) = Inr region_envelope"
proof (cases "recentHistory hist")
  case (Inl e)
  with assms show ?thesis by (simp add: generateText_state)
next
  case (Inr recent)
  consider (img) "isImageRequest p" | (aud) "\<not> isImageRequest p" "isAudioRequest p"
    | (plain) "\<not> isImageRequest p" "\<not> isAudioRequest p" by blast
  then show ?thesis
  proof cases
    case img
    with assms Inr obtain e where
      "fst (image_flow prov now_lookup now_store p recent st) = Inl e"
      "is_region_APIError e \<or> e = Error REGION_ERROR"
      using image_flow_region [of prov st now_lookup now_store p recent]
      by (auto simp: generateText_state)
    with img Inr show ?thesis
      by (auto simp: generateText_def inner_catch_region split: prod.split sum.split)
  next
    case aud
    with assms Inr obtain e where
      "fst (audio_flow prov now_lookup now_store p recent st) = Inl e"
      "is_region_APIError e \<or> e = Error REGION_ERROR"
      using audio_flow_region [of prov st now_lookup now_store p recent]
      by (auto simp: generateText_state)
    with aud Inr show ?thesis
      by (auto simp: generateText_def inner_catch_region split: prod.split sum.split)
  next
    case plain
    with assms Inr obtain e where
      "fst (text_flow prov p recent st) = Inl e" "is_region_APIError e"
      using text_flow_region [of prov st p recent]
      by (auto simp: generateText_state)
    with plain Inr show ?thesis
      by (auto simp: generateText_def outer_catch_def split: prod.split sum.split)
  qed
qed

text \<open>
  C5. For every request whose message is classified as image or audio intent: if any
  request that the handler sent to the provider while serving it was answered with an
  \<open>APIError\<close> carrying the code \<open>unsupported_country_region_territory\<close>, then the
  endpoint answers with status 200 and the envelope of type text whose content is the
  region message; no error is propagated and no \<open>{error}\<close> body is returned.
\<close>

theorem region_error_is_soft:
  assumes "req = Inr f" and "message f = Some (FString m)"
    and "isImageRequest m \<or> isAudioRequest m"
    and "list_ex is_region_APIError
           (provider_errors (openai srv) (calls st)
              (drop (length (calls st)) (calls (snd (POST srv now_lookup now_store req st)))))"
  shows "fst (POST srv now_lookup now_store req st) =
           Response 200 (Reply \<lparr>etype = Text, content = REGION_ERROR, url = None\<rparr>)"
proof -
  let ?hist = "parse_history (JSON_parse srv) (history f)"
  have run: "POST srv now_lookup now_store req st = POST_generate srv now_lookup now_store m ?hist st"
    using assms(1,2,4)
    by (auto simp: POST_def split: if_splits)
  have st: "snd (POST_generate srv now_lookup now_store m ?hist st) =
        snd (generateText (openai srv) now_lookup now_store m ?hist st)"
    by (simp add: POST_generate_def split: prod.split sum.split)
  have "fst (generateText (openai srv) now_lookup now_store m ?hist st) = Inr region_envelope"
    using assms(4) unfolding run st by (rule generateText_region)
  then show ?thesis
    unfolding run by (auto simp: POST_generate_def region_envelope_def split: prod.split sum.split)
qed

theorem region_error_is_soft_witness:
  "fst (POST (sample_server blocked_provider) 0 1000
          (Inr \<lparr>message = Some (FString ''Draw a picture of a fox''), history = None\<rparr>) fresh_state) =
     Response 200 (Reply \<lparr>etype = Text, content = REGION_ERROR, url = None\<rparr>) \<and>
   fst (POST (sample_server blocked_provider) 0 1000
          (Inr \<lparr>message = Some (FString ''Say it with your voice''), history = None\<rparr>) fresh_state) =
     Response 200 (Reply \<lparr>etype = Text, content = REGION_ERROR, url = None\<rparr>)"
proof -
  let ?srv = "sample_server blocked_provider"
  let ?draw = "\<lparr>message = Some (FString ''Draw a picture of a fox''), history = None\<rparr>"
  let ?say = "\<lparr>message = Some (FString ''Say it with your voice''), history = None\<rparr>"
  have i: "isImageRequest ''Draw a picture of a fox''"
    by (simp add: isImageRequest_def regex_test_def canonicalize_def)
  have a: "\<not> isImageRequest ''Say it with your voice''" "isAudioRequest ''Say it with your voice''"
    by (simp_all add: isImageRequest_def isAudioRequest_def regex_test_def canonicalize_def)
  have v: "\<not> invalid_message (Some (FString ''Draw a picture of a fox''))"
      "\<not> invalid_message (Some (FString ''Say it with your voice''))"
    by (simp_all add: trim_def is_space_def)
  have ci: "calls (snd (POST ?srv 0 1000 (Inr ?draw) fresh_state)) =
      [ChatCall [user_message ''Draw a picture of a fox'', imagePrompt_message] 150,
       ImageCall ''A red fox in the snow'']"
    using i v
    by (simp add: POST_def POST_generate_def generateText_def image_flow_def generateImage_def
        generateImage_try_def sample_server_def blocked_provider_def fresh_state_def falsy_def
        slice_last5_def Let_def inner_catch_def media_catch_def is_region_APIError_def REGION_CODE_def)
  have ca: "calls (snd (POST ?srv 0 1000 (Inr ?say) fresh_state)) =
      [ChatCall [user_message ''Say it with your voice'', audioPrompt_message] 150,
       SpeechCall Nova ''A red fox in the snow'']"
    using a v
    by (simp add: POST_def POST_generate_def generateText_def audio_flow_def generateAudio_def
        generateAudio_try_def sample_server_def blocked_provider_def fresh_state_def falsy_def
        slice_last5_def Let_def inner_catch_def media_catch_def is_region_APIError_def REGION_CODE_def
        select_voice_def)
  have hi: "list_ex is_region_APIError
           (provider_errors (openai ?srv) (calls fresh_state)
              (drop (length (calls fresh_state)) (calls (snd (POST ?srv 0 1000 (Inr ?draw) fresh_state)))))"
    unfolding ci
    by (simp add: fresh_state_def sample_server_def blocked_provider_def is_region_APIError_def REGION_CODE_def)
  have ha: "list_ex is_region_APIError
           (provider_errors (openai ?srv) (calls fresh_state)
              (drop (length (calls fresh_state)) (calls (snd (POST ?srv 0 1000 (Inr ?say) fresh_state)))))"
    unfolding ca
    by (simp add: fresh_state_def sample_server_def blocked_provider_def is_region_APIError_def REGION_CODE_def)
  have "fst (POST ?srv 0 1000 (Inr ?draw) fresh_state) =
      Response 200 (Reply \<lparr>etype = Text, content = REGION_ERROR, url = None\<rparr>)"
    by (rule region_error_is_soft [OF refl _ _ hi, where m = "''Draw a picture of a fox''"])
       (simp_all add: i)
  moreover have "fst (POST ?srv 0 1000 (Inr ?say) fresh_state) =
      Response 200 (Reply \<lparr>etype = Text, content = REGION_ERROR, url = None\<rparr>)"
    by (rule region_error_is_soft [OF refl _ _ ha, where m = "''Say it with your voice''"])
       (simp_all add: a)
  ultimately show ?thesis by simp
qed

subsection \<open>Request validation\<close>

text \<open>
  C6, as stated, fails: on a server without \<open>OPENAI_API_KEY\<close> the key test comes
  first, and a request with a blank message is answered with status 500 and the
  missing-key message, not with status 400.
\<close>

theorem empty_message_rejected_counterexample:
  "POST keyless_server 0 0 (Inr \<lparr>message = Some (FString ''   ''), history = None\<rparr>) fresh_state =
     (Response 500 (ErrorBody MISSING_API_KEY), fresh_state) \<and>
   Response 500 (ErrorBody MISSING_API_KEY) \<noteq> Response 400 (ErrorBody INVALID_REQUEST)"
  by (simp add: POST_def keyless_server_def falsy_def)

text \<open>
  C6, amended. On a server whose API key is set, for every request whose body decodes as
  form data and whose \<open>message\<close> field is missing, is a file, or is a string that is
  empty after trimming: the endpoint answers with status 400 and the invalid-request
  message, and the server state (cache and upstream requests) is unchanged.
\<close>

theorem empty_message_rejected:
  assumes "\<not> falsy (OPENAI_API_KEY srv)" and "req = Inr f"
    and "message f = None \<or> message f = Some FFile \<or> (\<exists>s. message f = Some (FString s) \<and> trim s = [])"
  shows "POST srv now_lookup now_store req st = (Response 400 (ErrorBody INVALID_REQUEST), st)"
  using assms by (auto simp: POST_def)

theorem empty_message_rejected_witness:
  "POST (sample_server demo_provider) 0 0
     (Inr \<lparr>message = Some (FString ''   ''), history = Some (FString ''[]'')\<rparr>) fresh_state =
     (Response 400 (ErrorBody INVALID_REQUEST), fresh_state) \<and>
   POST (sample_server demo_provider) 0 0 (Inr \<lparr>message = None, history = None\<rparr>) fresh_state =
     (Response 400 (ErrorBody INVALID_REQUEST), fresh_state) \<and>
   POST (sample_server demo_provider) 0 0 (Inr \<lparr>message = Some FFile, history = None\<rparr>) fresh_state =
     (Response 400 (ErrorBody INVALID_REQUEST), fresh_state)"
proof -
  have k: "\<not> falsy (OPENAI_API_KEY (sample_server demo_provider))"
    by (simp add: sample_server_def falsy_def)
  have t: "trim ''   '' = []" by (simp add: trim_def is_space_def)
  show ?thesis
    using empty_message_rejected [OF k refl, where f = "\<lparr>message = Some (FString ''   ''), history = Some (FString ''[]'')\<rparr>"
            and now_lookup = 0 and now_store = 0 and st = fresh_state]
          empty_message_rejected [OF k refl, where f = "\<lparr>message = None, history = None\<rparr>"
            and now_lookup = 0 and now_store = 0 and st = fresh_state]
          empty_message_rejected [OF k refl, where f = "\<lparr>message = Some FFile, history = None\<rparr>"
            and now_lookup = 0 and now_store = 0 and st = fresh_state]
          t
    by simp
qed

subsection \<open>The history field\<close>

text \<open>
  C7. For every request whose \<open>history\<close> field is a string on which \<open>JSON.parse\<close>
  throws: the response and the resulting state are those of the same request without a
  \<open>history\<close> field; and when the key is set and the message is valid, the handler goes
  on to generate with the empty array as history.
\<close>

theorem malformed_history_ignored:
  assumes "JSON_parse srv s = None"
  shows "POST srv now_lookup now_store (Inr \<lparr>message = msg, history = Some (FString s)\<rparr>) st =
         POST srv now_lookup now_store (Inr \<lparr>message = msg, history = None\<rparr>) st \<and>
         (\<forall>m. \<not> falsy (OPENAI_API_KEY srv) \<and> msg = Some (FString m) \<and> \<not> invalid_message msg \<longrightarrow>
            POST srv now_lookup now_store (Inr \<lparr>message = msg, history = Some (FString s)\<rparr>) st =
            POST_generate srv now_lookup now_store m (JArr []) st)"
  using assms by (auto simp: POST_def split: option.splits form_value.splits)

theorem malformed_history_ignored_witness:
  "POST (sample_server demo_provider) 0 0
     (Inr \<lparr>message = Some (FString ''Hello there''), history = Some (FString ''[oops'')\<rparr>) fresh_state =
   POST (sample_server demo_provider) 0 0
     (Inr \<lparr>message = Some (FString ''Hello there''), history = None\<rparr>) fresh_state \<and>
   POST (sample_server demo_provider) 0 0
     (Inr \<lparr>message = Some (FString ''Hello there''), history = Some (FString ''[oops'')\<rparr>) fresh_state =
     (Response 200 (Reply \<lparr>etype = Text, content = ''Is it raining?'', url = None\<rparr>),
      \<lparr>responseCache = Map.empty, calls = [ChatCall [user_message ''Hello there''] 500]\<rparr>)"
proof -
  have p: "JSON_parse (sample_server demo_provider) ''[oops'' = None"
    by (simp add: sample_server_def sample_JSON_parse_def)
  have c: "\<not> isImageRequest ''Hello there''" "\<not> isAudioRequest ''Hello there''"
    by (simp_all add: isImageRequest_def isAudioRequest_def regex_test_def canonicalize_def)
  have v: "\<not> invalid_message (Some (FString ''Hello there''))"
    by (simp add: trim_def is_space_def)
  have k: "\<not> falsy (OPENAI_API_KEY (sample_server demo_provider))"
    by (simp add: sample_server_def falsy_def)
  have g: "POST_generate (sample_server demo_provider) 0 0 ''Hello there'' (JArr []) fresh_state =
     (Response 200 (Reply \<lparr>etype = Text, content = ''Is it raining?'', url = None\<rparr>),
      \<lparr>responseCache = Map.empty, calls = [ChatCall [user_message ''Hello there''] 500]\<rparr>)"
    using c
    by (simp add: POST_generate_def generateText_def text_flow_def sample_server_def
        demo_provider_def fresh_state_def slice_last5_def Let_def)
  note th = malformed_history_ignored [OF p, where msg = "Some (FString ''Hello there'')"
      and now_lookup = 0 and now_store = 0 and st = fresh_state]
  from th have e1:
    "POST (sample_server demo_provider) 0 0
       (Inr \<lparr>message = Some (FString ''Hello there''), history = Some (FString ''[oops'')\<rparr>) fresh_state =
     POST (sample_server demo_provider) 0 0
       (Inr \<lparr>message = Some (FString ''Hello there''), history = None\<rparr>) fresh_state"
    by (rule conjunct1)
  from th k v have e2:
    "POST (sample_server demo_provider) 0 0
       (Inr \<lparr>message = Some (FString ''Hello there''), history = Some (FString ''[oops'')\<rparr>) fresh_state =
     POST_generate (sample_server demo_provider) 0 0 ''Hello there'' (JArr []) fresh_state"
    by blast
  show ?thesis
    by (rule conjI [OF e1 trans [OF e2 g]])
qed

text \<open>
  C10, as stated, fails for a JSON string: a string has \<open>slice\<close>. With the history
  text \<open>""\<close> (the empty JSON string) the slice is the empty string, the spread adds
  nothing, and the request is answered with a generated reply and status 200.
\<close>

theorem non_array_history_counterexample:
  \<open>sample_JSON_parse ''""'' = Some (JStr []) \<and>
   POST (sample_server demo_provider) 0 0
     (Inr \<lparr>message = Some (FString ''Hello there''), history = Some (FString ''""'')\<rparr>) fresh_state =
     (Response 200 (Reply \<lparr>etype = Text, content = ''Is it raining?'', url = None\<rparr>),
      \<lparr>responseCache = Map.empty, calls = [ChatCall [user_message ''Hello there''] 500]\<rparr>)\<close>
proof -
  have c: "\<not> isImageRequest ''Hello there''" "\<not> isAudioRequest ''Hello there''"
    by (simp_all add: isImageRequest_def isAudioRequest_def regex_test_def canonicalize_def)
  have v: "\<not> invalid_message (Some (FString ''Hello there''))"
    by (simp add: trim_def is_space_def)
  have p: \<open>sample_JSON_parse ''""'' = Some (JStr [])\<close>
    by (simp add: sample_JSON_parse_def)
  show ?thesis
    using c v p
    by (simp add: POST_def POST_generate_def generateText_def text_flow_def sample_server_def
        demo_provider_def fresh_state_def falsy_def slice_last5_def Let_def)
qed

text \<open>
  C10, amended. On a server whose API key is set, for every request with a valid message
  whose \<open>history\<close> field is a non-empty string that parses to \<open>null\<close>, a boolean, a
  number or an object: the parsed value is passed on as it is, \<open>history.slice\<close> throws,
  and the endpoint answers with status 500 and an \<open>{error}\<close> body; no upstream request
  is made and the state is unchanged.
\<close>

theorem non_array_history_fails:
  assumes "\<not> falsy (OPENAI_API_KEY srv)" and "req = Inr f"
    and "message f = Some (FString m)" and "\<not> invalid_message (message f)"
    and "history f = Some (FString s)" and "s \<noteq> []" and "JSON_parse srv s = Some v"
    and "v = JNull \<or> (\<exists>b. v = JBool b) \<or> (\<exists>n. v = JNum n) \<or> (\<exists>kvs. v = JObj kvs)"
  shows "\<exists>msg. POST srv now_lookup now_store req st = (Response 500 (ErrorBody msg), st)"
  using assms
  by (auto simp: POST_def POST_generate_def NextResponse_json_def generateText_def outer_catch_def
      is_region_APIError_def)

theorem non_array_history_fails_witness:
  "(\<exists>msg. POST (sample_server demo_provider) 0 0
     (Inr \<lparr>message = Some (FString ''Hello there''), history = Some (FString ''{}'')\<rparr>) fresh_state =
     (Response 500 (ErrorBody msg), fresh_state)) \<and>
   (\<exists>msg. POST (sample_server demo_provider) 0 0
     (Inr \<lparr>message = Some (FString ''Hello there''), history = Some (FString ''42'')\<rparr>) fresh_state =
     (Response 500 (ErrorBody msg), fresh_state)) \<and>
   (\<exists>msg. POST (sample_server demo_provider) 0 0
     (Inr \<lparr>message = Some (FString ''Hello there''), history = Some (FString ''null'')\<rparr>) fresh_state =
     (Response 500 (ErrorBody msg), fresh_state))"
proof -
  have k: "\<not> falsy (OPENAI_API_KEY (sample_server demo_provider))"
    by (simp add: sample_server_def falsy_def)
  have v: "trim ''Hello there'' \<noteq> []"
    by (simp add: trim_def is_space_def)
  have p: "JSON_parse (sample_server demo_provider) ''{}'' = Some (JObj [])"
      "JSON_parse (sample_server demo_provider) ''42'' = Some (JNum 42)"
      "JSON_parse (sample_server demo_provider) ''null'' = Some JNull"
    by (simp_all add: sample_server_def sample_JSON_parse_def)
  have "\<exists>msg. POST (sample_server demo_provider) 0 0
     (Inr \<lparr>message = Some (FString ''Hello there''), history = Some (FString ''{}'')\<rparr>) fresh_state =
     (Response 500 (ErrorBody msg), fresh_state)"
    by (rule non_array_history_fails [OF k refl _ _ _ _ p(1)]) (simp_all add: v)
  moreover have "\<exists>msg. POST (sample_server demo_provider) 0 0
     (Inr \<lparr>message = Some (FString ''Hello there''), history = Some (FString ''42'')\<rparr>) fresh_state =
     (Response 500 (ErrorBody msg), fresh_state)"
    by (rule non_array_history_fails [OF k refl _ _ _ _ p(2)]) (simp_all add: v)
  moreover have "\<exists>msg. POST (sample_server demo_provider) 0 0
     (Inr \<lparr>message = Some (FString ''Hello there''), history = Some (FString ''null'')\<rparr>) fresh_state =
     (Response 500 (ErrorBody msg), fresh_state)"
    by (rule non_array_history_fails [OF k refl _ _ _ _ p(3)]) (simp_all add: v)
  ultimately show ?thesis by blast
qed

subsection \<open>Errors that are not mapped\<close>

text \<open>
  What \<open>generateText\<close> can throw, by the requests it sent: nothing sent, and the
  \<open>TypeError\<close> of \<open>history.slice\<close>; the completion request alone, and what that
  request raised, or \<open>Error(NO_RESPONSE)\<close> when it raised nothing; the completion and a
  media request, and \<open>Error(MEDIA_ERROR)\<close>, whatever the media request raised.
\<close>

lemma media_is_not_region: "MEDIA_ERROR \<noteq> REGION_ERROR"
  by (simp add: MEDIA_ERROR_def REGION_ERROR_def)

lemma generateImage_thrown:
  assumes "generateImage prov now_lookup now_store q st = (Inl e, st')"
  shows "calls st' = calls st @ [ImageCall q] \<and> (e = Error MEDIA_ERROR \<or> e = Error REGION_ERROR)"
  using assms
  by (auto simp: generateImage_cases generateImage_try_def media_catch_def Let_def
      split: sum.splits option.splits if_splits)

lemma generateAudio_thrown:
  assumes "generateAudio prov now_lookup now_store q st = (Inl e, st')"
  shows "calls st' = calls st @ [SpeechCall (select_voice q) q] \<and>
         (e = Error MEDIA_ERROR \<or> e = Error REGION_ERROR)"
  using assms
  by (auto simp: generateAudio_cases generateAudio_try_def media_catch_def Let_def
      split: sum.splits option.splits if_splits)

lemma image_flow_thrown:
  assumes "image_flow prov now_lookup now_store p recent st = (Inl e, st')"
  shows "(\<exists>c. calls st' = calls st @ [c] \<and>
              (case raised prov (calls st) c of Some x \<Rightarrow> e = x | None \<Rightarrow> e = Error NO_RESPONSE)) \<or>
         (\<exists>c c'. calls st' = calls st @ [c, c'] \<and> (e = Error MEDIA_ERROR \<or> e = Error REGION_ERROR))"
proof -
  let ?messages = "recent @ [user_message p, imagePrompt_message]"
  let ?st1 = "st\<lparr>calls := calls st @ [ChatCall ?messages 150]\<rparr>"
  show ?thesis
  proof (cases "chat_create prov (calls st) ?messages 150")
    case (Inl x)
    with assms show ?thesis by (auto simp: image_flow_def)
  next
    case (Inr r)
    show ?thesis
    proof (cases "r = None \<or> r = Some []")
      case True
      with Inr assms show ?thesis by (auto simp: image_flow_def)
    next
      case False
      then obtain d where d: "r = Some d" "d \<noteq> []" by auto
      from assms Inr d have "generateImage prov now_lookup now_store d ?st1 = (Inl e, st')"
        by (auto simp: image_flow_def Let_def split: prod.splits sum.splits)
      from generateImage_thrown [OF this] show ?thesis by auto
    qed
  qed
qed

lemma audio_flow_thrown:
  assumes "audio_flow prov now_lookup now_store p recent st = (Inl e, st')"
  shows "(\<exists>c. calls st' = calls st @ [c] \<and>
              (case raised prov (calls st) c of Some x \<Rightarrow> e = x | None \<Rightarrow> e = Error NO_RESPONSE)) \<or>
         (\<exists>c c'. calls st' = calls st @ [c, c'] \<and> (e = Error MEDIA_ERROR \<or> e = Error REGION_ERROR))"
proof -
  let ?messages = "recent @ [user_message p, audioPrompt_message]"
  let ?st1 = "st\<lparr>calls := calls st @ [ChatCall ?messages 150]\<rparr>"
  show ?thesis
  proof (cases "chat_create prov (calls st) ?messages 150")
    case (Inl x)
    with assms show ?thesis by (auto simp: audio_flow_def)
  next
    case (Inr r)
    show ?thesis
    proof (cases "r = None \<or> r = Some []")
      case True
      with Inr assms show ?thesis by (auto simp: audio_flow_def)
    next
      case False
      then obtain d where d: "r = Some d" "d \<noteq> []" by auto
      from assms Inr d have "generateAudio prov now_lookup now_store d ?st1 = (Inl e, st')"
        by (auto simp: audio_flow_def Let_def split: prod.splits sum.splits)
      from generateAudio_thrown [OF this] show ?thesis by auto
    qed
  qed
qed

lemma text_flow_thrown:
  assumes "text_flow prov p recent st = (Inl e, st')"
  shows "\<exists>c. calls st' = calls st @ [c] \<and>
              (case raised prov (calls st) c of Some x \<Rightarrow> e = x | None \<Rightarrow> e = Error NO_RESPONSE)"
  using assms
  by (auto simp: text_flow_def Let_def split: sum.splits option.splits if_splits)

lemma inner_catch_thrown:
  "inner_catch e = Inl e' \<Longrightarrow> e' = e \<and> e \<noteq> Error REGION_ERROR"
  by (auto simp: inner_catch_def outer_catch_def split: if_splits)

lemma outer_catch_thrown: "outer_catch e = Inl e' \<Longrightarrow> e' = e"
  by (auto simp: outer_catch_def split: if_splits)

lemma generateText_thrown:
  assumes "generateText prov now_lookup now_store p hist st = (Inl e, st')"
  shows "(calls st' = calls st \<and> recentHistory hist = Inl e) \<or>
         (\<exists>c. calls st' = calls st @ [c] \<and>
              (case raised prov (calls st) c of Some x \<Rightarrow> e = x | None \<Rightarrow> e = Error NO_RESPONSE)) \<or>
         (\<exists>c c'. calls st' = calls st @ [c, c'] \<and> e = Error MEDIA_ERROR)"
proof (cases "recentHistory hist")
  case (Inl x)
  with assms show ?thesis
    by (auto simp: generateText_def dest: outer_catch_thrown)
next
  case (Inr recent)
  consider (img) "isImageRequest p" | (aud) "\<not> isImageRequest p" "isAudioRequest p"
    | (plain) "\<not> isImageRequest p" "\<not> isAudioRequest p" by blast
  then show ?thesis
  proof cases
    case img
    with assms Inr obtain x where
      x: "image_flow prov now_lookup now_store p recent st = (Inl x, st')" "inner_catch x = Inl e"
      by (auto simp: generateText_def split: prod.splits sum.splits)
    from inner_catch_thrown [OF x(2)] image_flow_thrown [OF x(1)] show ?thesis by auto
  next
    case aud
    with assms Inr obtain x where
      x: "audio_flow prov now_lookup now_store p recent st = (Inl x, st')" "inner_catch x = Inl e"
      by (auto simp: generateText_def split: prod.splits sum.splits)
    from inner_catch_thrown [OF x(2)] audio_flow_thrown [OF x(1)] show ?thesis by auto
  next
    case plain
    with assms Inr obtain x where
      x: "text_flow prov p recent st = (Inl x, st')" "outer_catch x = Inl e"
      by (auto simp: generateText_def split: prod.splits sum.splits)
    from outer_catch_thrown [OF x(2)] text_flow_thrown [OF x(1)] show ?thesis by auto
  qed
qed

text \<open>
  C8, as stated, fails: when the completion has no content, \<open>generateText\<close> throws
  \<open>Error(NO_RESPONSE)\<close>, and the endpoint answers with status 500 and that error's own
  message, which is not the generic processing-failure message.
\<close>

theorem unrecognized_error_counterexample:
  "POST (sample_server silent_provider) 0 0
     (Inr \<lparr>message = Some (FString ''Hello there''), history = None\<rparr>) fresh_state =
     (Response 500 (ErrorBody NO_RESPONSE),
      \<lparr>responseCache = Map.empty, calls = [ChatCall [user_message ''Hello there''] 500]\<rparr>) \<and>
   NO_RESPONSE \<noteq> PROCESSING_ERROR"
proof -
  have c: "\<not> isImageRequest ''Hello there''" "\<not> isAudioRequest ''Hello there''"
    by (simp_all add: isImageRequest_def isAudioRequest_def regex_test_def canonicalize_def)
  have v: "\<not> invalid_message (Some (FString ''Hello there''))"
    by (simp add: trim_def is_space_def)
  have "NO_RESPONSE \<noteq> PROCESSING_ERROR"
    by (simp add: NO_RESPONSE_def PROCESSING_ERROR_def)
  moreover have "POST (sample_server silent_provider) 0 0
     (Inr \<lparr>message = Some (FString ''Hello there''), history = None\<rparr>) fresh_state =
     (Response 500 (ErrorBody NO_RESPONSE),
      \<lparr>responseCache = Map.empty, calls = [ChatCall [user_message ''Hello there''] 500]\<rparr>)"
    using c v
    by (simp add: POST_def POST_generate_def NextResponse_json_def generateText_def text_flow_def
        sample_server_def silent_provider_def fresh_state_def falsy_def slice_last5_def Let_def
        outer_catch_def is_region_APIError_def)
  ultimately show ?thesis by simp
qed

lemma POST_runs_generate:
  assumes "\<not> falsy (OPENAI_API_KEY srv)" and "req = Inr f"
    and "message f = Some (FString m)" and "\<not> invalid_message (message f)"
  shows "POST srv now_lookup now_store req st =
         POST_generate srv now_lookup now_store m (parse_history (JSON_parse srv) (history f)) st"
  using assms by (simp add: POST_def)

lemma POST_generate_thrown:
  assumes "generateText (openai srv) now_lookup now_store m hist st = (Inl e, st')"
  shows "POST_generate srv now_lookup now_store m hist st =
         (case error_response e of Inr r \<Rightarrow> r | Inl thrown \<Rightarrow> POST_catch thrown, st')"
  using assms by (simp add: POST_generate_def split: sum.split)

text \<open>
  C8, amended. On a server whose API key is set, for every valid request whose generation
  throws a value \<open>e\<close> to the handler:
  \<^item> when \<open>e\<close> is not an \<open>APIError\<close>, the endpoint answers with status 500 and, as
    error text, the message of \<open>e\<close> when \<open>e\<close> is an \<open>Error\<close>, and the generic
    processing-failure message only when it is not;
  \<^item> when \<open>e\<close> is an \<open>APIError\<close> whose status is neither 401 nor 429 and whose
    code is neither the content-policy nor the region code, the endpoint answers with
    the model-unavailable message and the error's own status (500 when it has none),
    provided a response with a body can carry that status (200 to 599, not 204, 205 or
    304); otherwise building the response throws and the endpoint answers with status
    500 and the message of that throw;
  \<^item> where \<open>e\<close> comes from: when no request was sent, \<open>e\<close> is the \<open>TypeError\<close> of
    \<open>history.slice\<close>; when only the completion request was sent, \<open>e\<close> is the value
    that request raised, or \<open>Error(NO_RESPONSE)\<close> when it raised nothing; when an
    image or speech request was sent as well, \<open>e\<close> is \<open>Error(MEDIA_ERROR)\<close> whatever
    that request raised, \<open>APIError\<close> or not, and the endpoint answers with status 500
    and the media message. No other case exists.
\<close>

theorem unrecognized_error_response:
  assumes "\<not> falsy (OPENAI_API_KEY srv)" and "req = Inr f"
    and "message f = Some (FString m)" and "\<not> invalid_message (message f)"
    and "hist = parse_history (JSON_parse srv) (history f)"
    and "generateText (openai srv) now_lookup now_store m hist st = (Inl e, st')"
  shows
   "(\<not> instanceof_APIError e \<longrightarrow>
       POST srv now_lookup now_store req st =
         (Response 500 (ErrorBody (case error_message e of
                                     Some msg \<Rightarrow> msg | None \<Rightarrow> PROCESSING_ERROR)), st')) \<and>
    (\<forall>status code msg n.
       e = APIError status code msg \<and> status \<noteq> Some 401 \<and> status \<noteq> Some 429 \<and>
       code \<noteq> Some ''content_policy_violation'' \<and> code \<noteq> Some REGION_CODE \<and>
       n = (case status of None \<Rightarrow> 500 | Some k \<Rightarrow> if k = 0 then 500 else k) \<longrightarrow>
         (200 \<le> n \<and> n \<le> 599 \<and> n \<noteq> 204 \<and> n \<noteq> 205 \<and> n \<noteq> 304 \<longrightarrow>
            POST srv now_lookup now_store req st = (Response n (ErrorBody MODEL_ERROR), st')) \<and>
         (n < 200 \<or> 599 < n \<or> n = 204 \<or> n = 205 \<or> n = 304 \<longrightarrow>
            (\<exists>thrown. POST srv now_lookup now_store req st =
                        (Response 500 (ErrorBody thrown), st')))) \<and>
    (calls st' = calls st \<longrightarrow> recentHistory hist = Inl e) \<and>
    (\<forall>c. calls st' = calls st @ [c] \<longrightarrow>
       (case raised (openai srv) (calls st) c of
          Some x \<Rightarrow> e = x | None \<Rightarrow> e = Error NO_RESPONSE)) \<and>
    (\<forall>c c'. calls st' = calls st @ [c, c'] \<longrightarrow>
       e = Error MEDIA_ERROR \<and>
       POST srv now_lookup now_store req st = (Response 500 (ErrorBody MEDIA_ERROR), st')) \<and>
    (calls st' = calls st \<or> (\<exists>c. calls st' = calls st @ [c]) \<or>
     (\<exists>c c'. calls st' = calls st @ [c, c']))"
proof -
  have run: "POST srv now_lookup now_store req st =
             (case error_response e of Inr r \<Rightarrow> r | Inl thrown \<Rightarrow> POST_catch thrown, st')"
    using POST_runs_generate [OF assms(1-4)] POST_generate_thrown [OF assms(6)] assms(5)
    by simp
  have a: "POST srv now_lookup now_store req st =
         (Response 500 (ErrorBody (case error_message e of
                                     Some msg \<Rightarrow> msg | None \<Rightarrow> PROCESSING_ERROR)), st')"
    if "\<not> instanceof_APIError e"
    using that unfolding run by (cases e) (simp_all add: NextResponse_json_def)
  have b1: "POST srv now_lookup now_store req st = (Response n (ErrorBody MODEL_ERROR), st')"
    if "e = APIError status code msg" "status \<noteq> Some 401" "status \<noteq> Some 429"
      "code \<noteq> Some ''content_policy_violation''" "code \<noteq> Some REGION_CODE"
      "n = (case status of None \<Rightarrow> 500 | Some k \<Rightarrow> if k = 0 then 500 else k)"
      "200 \<le> n \<and> n \<le> 599 \<and> n \<noteq> 204 \<and> n \<noteq> 205 \<and> n \<noteq> 304"
    for status code msg n
    using that unfolding run by (simp add: NextResponse_json_def Let_def)
  have b2: "\<exists>thrown. POST srv now_lookup now_store req st = (Response 500 (ErrorBody thrown), st')"
    if "e = APIError status code msg" "code \<noteq> Some ''content_policy_violation''"
      "n = (case status of None \<Rightarrow> 500 | Some k \<Rightarrow> if k = 0 then 500 else k)"
      "n < 200 \<or> 599 < n \<or> n = 204 \<or> n = 205 \<or> n = 304"
    for status code msg n
    using that unfolding run by (auto simp: NextResponse_json_def POST_catch_def Let_def)
  note origin = generateText_thrown [OF assms(6)]
  have c0: "recentHistory hist = Inl e" if "calls st' = calls st"
    using origin that by auto
  have c1: "case raised (openai srv) (calls st) c of
              Some x \<Rightarrow> e = x | None \<Rightarrow> e = Error NO_RESPONSE"
    if "calls st' = calls st @ [c]" for c
    using origin that by auto
  have c2: "e = Error MEDIA_ERROR" if "calls st' = calls st @ [c, c']" for c c'
    using origin that by auto
  have c2': "POST srv now_lookup now_store req st = (Response 500 (ErrorBody MEDIA_ERROR), st')"
    if "calls st' = calls st @ [c, c']" for c c'
    using a c2 [OF that] by simp
  have c3: "calls st' = calls st \<or> (\<exists>c. calls st' = calls st @ [c]) \<or>
     (\<exists>c c'. calls st' = calls st @ [c, c'])"
    using origin by auto
  have A: "\<not> instanceof_APIError e \<longrightarrow>
       POST srv now_lookup now_store req st =
         (Response 500 (ErrorBody (case error_message e of
                                     Some msg \<Rightarrow> msg | None \<Rightarrow> PROCESSING_ERROR)), st')"
    using a by (rule impI)
  have B: "\<forall>status code msg n.
       e = APIError status code msg \<and> status \<noteq> Some 401 \<and> status \<noteq> Some 429 \<and>
       code \<noteq> Some ''content_policy_violation'' \<and> code \<noteq> Some REGION_CODE \<and>
       n = (case status of None \<Rightarrow> 500 | Some k \<Rightarrow> if k = 0 then 500 else k) \<longrightarrow>
         (200 \<le> n \<and> n \<le> 599 \<and> n \<noteq> 204 \<and> n \<noteq> 205 \<and> n \<noteq> 304 \<longrightarrow>
            POST srv now_lookup now_store req st = (Response n (ErrorBody MODEL_ERROR), st')) \<and>
         (n < 200 \<or> 599 < n \<or> n = 204 \<or> n = 205 \<or> n = 304 \<longrightarrow>
            (\<exists>thrown. POST srv now_lookup now_store req st =
                        (Response 500 (ErrorBody thrown), st')))"
  proof (intro allI impI conjI; elim conjE)
    fix status code msg n
    assume h: "e = APIError status code msg" "status \<noteq> Some 401" "status \<noteq> Some 429"
      "code \<noteq> Some ''content_policy_violation''" "code \<noteq> Some REGION_CODE"
      "n = (case status of None \<Rightarrow> 500 | Some k \<Rightarrow> if k = 0 then 500 else k)"
    show "POST srv now_lookup now_store req st = (Response n (ErrorBody MODEL_ERROR), st')"
      if "200 \<le> n" "n \<le> 599" "n \<noteq> 204" "n \<noteq> 205" "n \<noteq> 304"
      using h that by (intro b1) simp_all
    show "\<exists>thrown. POST srv now_lookup now_store req st = (Response 500 (ErrorBody thrown), st')"
      if "n < 200 \<or> 599 < n \<or> n = 204 \<or> n = 205 \<or> n = 304"
      using h(1,4,6) that by (rule b2)
  qed
  have C0: "calls st' = calls st \<longrightarrow> recentHistory hist = Inl e"
    using c0 by (rule impI)
  have C1: "\<forall>c. calls st' = calls st @ [c] \<longrightarrow>
       (case raised (openai srv) (calls st) c of
          Some x \<Rightarrow> e = x | None \<Rightarrow> e = Error NO_RESPONSE)"
    using c1 by (intro allI impI)
  have C2: "\<forall>c c'. calls st' = calls st @ [c, c'] \<longrightarrow>
       e = Error MEDIA_ERROR \<and>
       POST srv now_lookup now_store req st = (Response 500 (ErrorBody MEDIA_ERROR), st')"
    using c2 c2' by (intro allI impI conjI)
  show ?thesis
    by (intro conjI A B C0 C1 C2 c3)
qed

theorem unrecognized_error_response_witness:
  "POST (sample_server silent_provider) 0 0
     (Inr \<lparr>message = Some (FString ''Hello there''), history = Some (FString ''42'')\<rparr>) fresh_state =
     (Response 500 (ErrorBody ''history.slice is not a function''), fresh_state) \<and>
   POST (sample_server overloaded_provider) 0 0
     (Inr \<lparr>message = Some (FString ''Hello there''), history = None\<rparr>) fresh_state =
     (Response 503 (ErrorBody MODEL_ERROR),
      \<lparr>responseCache = Map.empty, calls = [ChatCall [user_message ''Hello there''] 500]\<rparr>) \<and>
   (\<exists>thrown. POST (sample_server odd_status_provider) 0 0
     (Inr \<lparr>message = Some (FString ''Hello there''), history = None\<rparr>) fresh_state =
     (Response 500 (ErrorBody thrown),
      \<lparr>responseCache = Map.empty, calls = [ChatCall [user_message ''Hello there''] 500]\<rparr>)) \<and>
   POST (sample_server failing_media_provider) 0 0
     (Inr \<lparr>message = Some (FString ''Draw a picture of a fox''), history = None\<rparr>) fresh_state =
     (Response 500 (ErrorBody MEDIA_ERROR),
      \<lparr>responseCache = Map.empty,
       calls = [ChatCall [user_message ''Draw a picture of a fox'', imagePrompt_message] 150,
                ImageCall ''A red fox in the snow'']\<rparr>)"
proof -
  let ?f = "\<lparr>message = Some (FString ''Hello there''), history = Some (FString ''42'')\<rparr>"
  let ?g = "\<lparr>message = Some (FString ''Hello there''), history = None\<rparr>"
  let ?h = "\<lparr>message = Some (FString ''Draw a picture of a fox''), history = None\<rparr>"
  let ?st1 = "\<lparr>responseCache = Map.empty, calls = [ChatCall [user_message ''Hello there''] 500]\<rparr>"
  let ?st2 = "\<lparr>responseCache = Map.empty,
       calls = [ChatCall [user_message ''Draw a picture of a fox'', imagePrompt_message] 150,
                ImageCall ''A red fox in the snow'']\<rparr>"
  have c: "\<not> isImageRequest ''Hello there''" "\<not> isAudioRequest ''Hello there''"
    by (simp_all add: isImageRequest_def isAudioRequest_def regex_test_def canonicalize_def)
  have i: "isImageRequest ''Draw a picture of a fox''"
    by (simp add: isImageRequest_def regex_test_def canonicalize_def)
  have k: "\<not> falsy (OPENAI_API_KEY (sample_server prov))" for prov
    by (simp add: sample_server_def falsy_def)
  have v: "\<not> invalid_message (message ?f)" "\<not> invalid_message (message ?g)"
      "\<not> invalid_message (message ?h)"
    by (simp_all add: trim_def is_space_def)
  have g1: "generateText (openai (sample_server silent_provider)) 0 0 ''Hello there''
             (parse_history (JSON_parse (sample_server silent_provider)) (history ?f)) fresh_state =
           (Inl (Error ''history.slice is not a function''), fresh_state)"
    by (simp add: generateText_def sample_server_def sample_JSON_parse_def outer_catch_def
        is_region_APIError_def)
  have g2: "generateText (openai (sample_server overloaded_provider)) 0 0 ''Hello there''
             (parse_history (JSON_parse (sample_server overloaded_provider)) (history ?g)) fresh_state =
           (Inl (APIError (Some 503) None ''The server is overloaded''), ?st1)"
    using c
    by (simp add: generateText_def text_flow_def sample_server_def overloaded_provider_def
        fresh_state_def slice_last5_def outer_catch_def is_region_APIError_def Let_def)
  have g3: "generateText (openai (sample_server odd_status_provider)) 0 0 ''Hello there''
             (parse_history (JSON_parse (sample_server odd_status_provider)) (history ?g)) fresh_state =
           (Inl (APIError (Some 700) None ''Unknown failure''), ?st1)"
    using c
    by (simp add: generateText_def text_flow_def sample_server_def odd_status_provider_def
        fresh_state_def slice_last5_def outer_catch_def is_region_APIError_def Let_def)
  have g4: "generateText (openai (sample_server failing_media_provider)) 0 0 ''Draw a picture of a fox''
             (parse_history (JSON_parse (sample_server failing_media_provider)) (history ?h)) fresh_state =
           (Inl (Error MEDIA_ERROR), ?st2)"
    using i media_is_not_region
    by (simp add: generateText_def image_flow_def generateImage_def generateImage_try_def
        sample_server_def failing_media_provider_def fresh_state_def slice_last5_def
        inner_catch_def outer_catch_def media_catch_def is_region_APIError_def Let_def)
  from unrecognized_error_response [OF k refl _ v(1) refl g1]
  have "POST (sample_server silent_provider) 0 0 (Inr ?f) fresh_state =
     (Response 500 (ErrorBody ''history.slice is not a function''), fresh_state)"
    by simp
  moreover from unrecognized_error_response [OF k refl _ v(2) refl g2]
  have "POST (sample_server overloaded_provider) 0 0 (Inr ?g) fresh_state =
     (Response 503 (ErrorBody MODEL_ERROR), ?st1)"
    by (simp add: REGION_CODE_def)
  moreover from unrecognized_error_response [OF k refl _ v(2) refl g3]
  have "\<exists>thrown. POST (sample_server odd_status_provider) 0 0 (Inr ?g) fresh_state =
     (Response 500 (ErrorBody thrown), ?st1)"
    by (simp add: REGION_CODE_def)
  moreover from unrecognized_error_response [OF k refl _ v(3) refl g4]
  have "POST (sample_server failing_media_provider) 0 0 (Inr ?h) fresh_state =
     (Response 500 (ErrorBody MEDIA_ERROR), ?st2)"
    by (simp add: fresh_state_def)
  ultimately show ?thesis by blast
qed

subsection \<open>The cache key\<close>

lemma draw_is_image: "isImageRequest ''Draw a picture of it''"
  by (simp add: isImageRequest_def regex_test_def canonicalize_def)

lemma after_first_eq:
  "after_first = \<lparr>responseCache = [''image:a red fox'' \<mapsto> (''Zm94'', 1000)],
      calls = [ChatCall [user_message ''Draw a picture of it'', imagePrompt_message] 150,
               ImageCall ''a red fox'']\<rparr>"
  using draw_is_image
  by (simp add: after_first_def generateText_def image_flow_def generateImage_def
      generateImage_try_def generateCacheKey_def context_provider_def fresh_state_def
      slice_last5_def Let_def)

text \<open>
  C3, as stated, fails: the key is not made from the user's prompt. After a first image
  request with the prompt \<open>Draw a picture of it\<close> the cache has no entry under
  \<open>(image, Draw a picture of it)\<close>; the entry is under the completion's text. A second
  request with the same prompt and kind, 2 seconds later, in a conversation with one
  earlier turn, gets another completion text, so it misses the cache: a fresh image
  request goes upstream and another payload is returned.
\<close>

theorem cache_key_counterexample:
  "responseCache after_first (generateCacheKey ''Draw a picture of it'' Image) = None \<and>
   responseCache after_first (generateCacheKey ''a red fox'' Image) = Some (''Zm94'', 1000) \<and>
   fst (generateText context_provider 2000 3000 ''Draw a picture of it'' (JArr one_turn) after_first) =
     Inr \<lparr>etype = Image, content = ''Here's the generated image based on your request.'',
          url = Some ''data:image/png;base64,d2hhbGU=''\<rparr> \<and>
   calls (snd (generateText context_provider 2000 3000 ''Draw a picture of it'' (JArr one_turn) after_first)) =
     calls after_first @
     [ChatCall (one_turn @ [user_message ''Draw a picture of it'', imagePrompt_message]) 150,
      ImageCall ''a blue whale'']"
  using draw_is_image
  by (simp add: after_first_eq generateText_def image_flow_def generateImage_def
      generateImage_try_def generateCacheKey_def context_provider_def one_turn_def
      slice_last5_def Let_def)

lemma generateCacheKey_inj:
  "(generateCacheKey d k = generateCacheKey d' k') = (d = d' \<and> k = k')"
  by (cases k; cases k'; auto simp: generateCacheKey_def)

lemma image_flow_miss_calls:
  assumes "chat_create prov (calls st) (recent @ [user_message p, imagePrompt_message]) 150 = Inr (Some d)" "d \<noteq> []"
    and "case responseCache st (generateCacheKey d Image) of
            None \<Rightarrow> True | Some (b', t) \<Rightarrow> 5 * 60 * 1000 \<le> now_lookup - t"
  shows "calls (snd (image_flow prov now_lookup now_store p recent st)) =
           calls st @ [ChatCall (recent @ [user_message p, imagePrompt_message]) 150, ImageCall d]"
proof -
  let ?st1 = "st\<lparr>calls := calls st @ [ChatCall (recent @ [user_message p, imagePrompt_message]) 150]\<rparr>"
  have e: "snd (image_flow prov now_lookup now_store p recent st) =
        snd (generateImage prov now_lookup now_store d ?st1)"
    using assms(1,2) by (simp add: image_flow_def Let_def split: prod.split sum.split)
  have "calls (snd (generateImage prov now_lookup now_store d ?st1)) = calls ?st1 @ [ImageCall d]"
    using assms(3)
    by (auto simp: generateImage_cases generateImage_try_calls split: option.splits)
  then show ?thesis
    unfolding e by simp
qed

lemma audio_flow_miss_calls:
  assumes "chat_create prov (calls st) (recent @ [user_message p, audioPrompt_message]) 150 = Inr (Some d)" "d \<noteq> []"
    and "case responseCache st (generateCacheKey d Audio) of
            None \<Rightarrow> True | Some (b', t) \<Rightarrow> 5 * 60 * 1000 \<le> now_lookup - t"
  shows "calls (snd (audio_flow prov now_lookup now_store p recent st)) =
           calls st @ [ChatCall (recent @ [user_message p, audioPrompt_message]) 150, SpeechCall (select_voice d) d]"
proof -
  let ?st1 = "st\<lparr>calls := calls st @ [ChatCall (recent @ [user_message p, audioPrompt_message]) 150]\<rparr>"
  have e: "snd (audio_flow prov now_lookup now_store p recent st) =
        snd (generateAudio prov now_lookup now_store d ?st1)"
    using assms(1,2) by (simp add: audio_flow_def Let_def split: prod.split sum.split)
  have "calls (snd (generateAudio prov now_lookup now_store d ?st1)) = calls ?st1 @ [SpeechCall (select_voice d) d]"
    using assms(3)
    by (auto simp: generateAudio_cases generateAudio_try_calls split: option.splits)
  then show ?thesis
    unfolding e by simp
qed

text \<open>
  C3, amended. The cache key is the pair of the kind and the text handed to the media
  generator: different pairs have different keys. For every request of image or audio
  intent whose history can be sliced and whose completion request returns a non-empty
  text \<open>d\<close>, that text is \<open>d\<close>, the completion's text, not the user's prompt:
  \<^item> lookup: when the cache holds a payload under \<open>(kind, d)\<close> stored less than 5
    minutes before, the request is answered with that payload, and the completion
    request is the only one sent upstream;
  \<^item> miss: when it holds none under \<open>(kind, d)\<close>, or an older one, the media
    request for \<open>d\<close> is sent after the completion request, whatever the cache holds
    under other pairs, the user's prompt included;
  \<^item> store: when the media endpoint then returns a payload, the cache afterwards holds
    it under \<open>(kind, d)\<close> and is unchanged under every other pair of kind and text.
  Prompt and history enter only through \<open>d\<close>: requests whose completions return the same
  text share the payload, requests whose completions differ do not.
\<close>

theorem cache_key_is_completion_text:
  assumes "recentHistory hist = Inr recent"
  shows
   "(\<forall>d1 k1 d2 k2. generateCacheKey d1 k1 = generateCacheKey d2 k2 \<longrightarrow> d1 = d2 \<and> k1 = k2) \<and>
    (isImageRequest p \<and>
     chat_create prov (calls st) (recent @ [user_message p, imagePrompt_message]) 150 = Inr (Some d) \<and>
     d \<noteq> [] \<longrightarrow>
       (\<forall>b t. responseCache st (generateCacheKey d Image) = Some (b, t) \<and>
              now_lookup - t < 5 * 60 * 1000 \<longrightarrow>
          generateText prov now_lookup now_store p hist st =
            (Inr \<lparr>etype = Image, content = ''Here's the generated image based on your request.'',
                  url = Some (''data:image/png;base64,'' @ b)\<rparr>,
             st\<lparr>calls := calls st @ [ChatCall (recent @ [user_message p, imagePrompt_message]) 150]\<rparr>)) \<and>
       ((case responseCache st (generateCacheKey d Image) of
           None \<Rightarrow> True | Some (b', t) \<Rightarrow> 5 * 60 * 1000 \<le> now_lookup - t) \<longrightarrow>
          calls (snd (generateText prov now_lookup now_store p hist st)) =
            calls st @ [ChatCall (recent @ [user_message p, imagePrompt_message]) 150, ImageCall d]) \<and>
       (\<forall>b. (case responseCache st (generateCacheKey d Image) of
                None \<Rightarrow> True | Some (b', t) \<Rightarrow> 5 * 60 * 1000 \<le> now_lookup - t) \<and>
            images_generate prov
              (calls st @ [ChatCall (recent @ [user_message p, imagePrompt_message]) 150]) d =
              Inr (Some b) \<and> b \<noteq> [] \<longrightarrow>
          responseCache (snd (generateText prov now_lookup now_store p hist st)) =
            (responseCache st)(generateCacheKey d Image \<mapsto> (b, now_store)) \<and>
          (\<forall>d' k'. responseCache (snd (generateText prov now_lookup now_store p hist st))
                     (generateCacheKey d' k') =
                   (if d' = d \<and> k' = Image then Some (b, now_store)
                    else responseCache st (generateCacheKey d' k'))))) \<and>
    (\<not> isImageRequest p \<and> isAudioRequest p \<and>
     chat_create prov (calls st) (recent @ [user_message p, audioPrompt_message]) 150 = Inr (Some d) \<and>
     d \<noteq> [] \<longrightarrow>
       (\<forall>b t. responseCache st (generateCacheKey d Audio) = Some (b, t) \<and>
              now_lookup - t < 5 * 60 * 1000 \<longrightarrow>
          generateText prov now_lookup now_store p hist st =
            (Inr \<lparr>etype = Audio, content = d, url = Some (''data:audio/mp3;base64,'' @ b)\<rparr>,
             st\<lparr>calls := calls st @ [ChatCall (recent @ [user_message p, audioPrompt_message]) 150]\<rparr>)) \<and>
       ((case responseCache st (generateCacheKey d Audio) of
           None \<Rightarrow> True | Some (b', t) \<Rightarrow> 5 * 60 * 1000 \<le> now_lookup - t) \<longrightarrow>
          calls (snd (generateText prov now_lookup now_store p hist st)) =
            calls st @ [ChatCall (recent @ [user_message p, audioPrompt_message]) 150, SpeechCall (select_voice d) d]) \<and>
       (\<forall>b. (case responseCache st (generateCacheKey d Audio) of
                None \<Rightarrow> True | Some (b', t) \<Rightarrow> 5 * 60 * 1000 \<le> now_lookup - t) \<and>
            speech_create prov
              (calls st @ [ChatCall (recent @ [user_message p, audioPrompt_message]) 150])
              (select_voice d) d = Inr b \<longrightarrow>
          responseCache (snd (generateText prov now_lookup now_store p hist st)) =
            (responseCache st)(generateCacheKey d Audio \<mapsto> (b, now_store)) \<and>
          (\<forall>d' k'. responseCache (snd (generateText prov now_lookup now_store p hist st))
                     (generateCacheKey d' k') =
                   (if d' = d \<and> k' = Audio then Some (b, now_store)
                    else responseCache st (generateCacheKey d' k')))))"
proof (intro conjI impI allI; (elim conjE)?)
  show "d1 = d2" "k1 = k2" if "generateCacheKey d1 k1 = generateCacheKey d2 k2" for d1 k1 d2 k2
    using that by (simp_all add: generateCacheKey_inj)
  show "generateText prov now_lookup now_store p hist st =
            (Inr \<lparr>etype = Image, content = ''Here's the generated image based on your request.'',
                  url = Some (''data:image/png;base64,'' @ b)\<rparr>,
             st\<lparr>calls := calls st @ [ChatCall (recent @ [user_message p, imagePrompt_message]) 150]\<rparr>)"
    if "isImageRequest p" "chat_create prov (calls st) (recent @ [user_message p, imagePrompt_message]) 150 = Inr (Some d)" "d \<noteq> []"
      "responseCache st (generateCacheKey d Image) = Some (b, t)" "now_lookup - t < 5 * 60 * 1000"
    for d b t
    using that assms
    by (simp add: generateText_def image_flow_def generateImage_cases Let_def)
  show "calls (snd (generateText prov now_lookup now_store p hist st)) =
            calls st @ [ChatCall (recent @ [user_message p, imagePrompt_message]) 150, ImageCall d]"
    if "isImageRequest p" "chat_create prov (calls st) (recent @ [user_message p, imagePrompt_message]) 150 = Inr (Some d)" "d \<noteq> []"
      "case responseCache st (generateCacheKey d Image) of
            None \<Rightarrow> True | Some (b', t) \<Rightarrow> 5 * 60 * 1000 \<le> now_lookup - t"
    for d
    using that assms
    by (simp add: generateText_state image_flow_miss_calls)
  show "responseCache (snd (generateText prov now_lookup now_store p hist st)) =
            (responseCache st)(generateCacheKey d Image \<mapsto> (b, now_store))"
    if "isImageRequest p" "chat_create prov (calls st) (recent @ [user_message p, imagePrompt_message]) 150 = Inr (Some d)" "d \<noteq> []"
      "case responseCache st (generateCacheKey d Image) of
            None \<Rightarrow> True | Some (b', t) \<Rightarrow> 5 * 60 * 1000 \<le> now_lookup - t"
      "images_generate prov
              (calls st @ [ChatCall (recent @ [user_message p, imagePrompt_message]) 150]) d =
              Inr (Some b)" "b \<noteq> []"
    for d b
    using that assms
    by (auto simp: generateText_def image_flow_def generateImage_cases generateImage_try_def Let_def
        split: option.splits)
  show "responseCache (snd (generateText prov now_lookup now_store p hist st)) (generateCacheKey d' k') =
          (if d' = d \<and> k' = Image then Some (b, now_store)
           else responseCache st (generateCacheKey d' k'))"
    if "isImageRequest p" "chat_create prov (calls st) (recent @ [user_message p, imagePrompt_message]) 150 = Inr (Some d)" "d \<noteq> []"
      "case responseCache st (generateCacheKey d Image) of
            None \<Rightarrow> True | Some (b', t) \<Rightarrow> 5 * 60 * 1000 \<le> now_lookup - t"
      "images_generate prov
              (calls st @ [ChatCall (recent @ [user_message p, imagePrompt_message]) 150]) d =
              Inr (Some b)" "b \<noteq> []"
    for d b d' k'
    using that assms
    by (auto simp: generateText_def image_flow_def generateImage_cases generateImage_try_def Let_def
        generateCacheKey_inj split: option.splits)
  show "generateText prov now_lookup now_store p hist st =
            (Inr \<lparr>etype = Audio, content = d, url = Some (''data:audio/mp3;base64,'' @ b)\<rparr>,
             st\<lparr>calls := calls st @ [ChatCall (recent @ [user_message p, audioPrompt_message]) 150]\<rparr>)"
    if "\<not> isImageRequest p" "isAudioRequest p" "chat_create prov (calls st) (recent @ [user_message p, audioPrompt_message]) 150 = Inr (Some d)" "d \<noteq> []"
      "responseCache st (generateCacheKey d Audio) = Some (b, t)" "now_lookup - t < 5 * 60 * 1000"
    for d b t
    using that assms
    by (simp add: generateText_def audio_flow_def generateAudio_cases Let_def)
  show "calls (snd (generateText prov now_lookup now_store p hist st)) =
            calls st @ [ChatCall (recent @ [user_message p, audioPrompt_message]) 150, SpeechCall (select_voice d) d]"
    if "\<not> isImageRequest p" "isAudioRequest p" "chat_create prov (calls st) (recent @ [user_message p, audioPrompt_message]) 150 = Inr (Some d)" "d \<noteq> []"
      "case responseCache st (generateCacheKey d Audio) of
            None \<Rightarrow> True | Some (b', t) \<Rightarrow> 5 * 60 * 1000 \<le> now_lookup - t"
    for d
    using that assms
    by (simp add: generateText_state audio_flow_miss_calls)
  show "responseCache (snd (generateText prov now_lookup now_store p hist st)) =
            (responseCache st)(generateCacheKey d Audio \<mapsto> (b, now_store))"
    if "\<not> isImageRequest p" "isAudioRequest p" "chat_create prov (calls st) (recent @ [user_message p, audioPrompt_message]) 150 = Inr (Some d)" "d \<noteq> []"
      "case responseCache st (generateCacheKey d Audio) of
            None \<Rightarrow> True | Some (b', t) \<Rightarrow> 5 * 60 * 1000 \<le> now_lookup - t"
      "speech_create prov
              (calls st @ [ChatCall (recent @ [user_message p, audioPrompt_message]) 150])
              (select_voice d) d = Inr b"
    for d b
    using that assms
    by (auto simp: generateText_def audio_flow_def generateAudio_cases generateAudio_try_def Let_def
        split: option.splits)
  show "responseCache (snd (generateText prov now_lookup now_store p hist st)) (generateCacheKey d' k') =
          (if d' = d \<and> k' = Audio then Some (b, now_store)
           else responseCache st (generateCacheKey d' k'))"
    if "\<not> isImageRequest p" "isAudioRequest p" "chat_create prov (calls st) (recent @ [user_message p, audioPrompt_message]) 150 = Inr (Some d)" "d \<noteq> []"
      "case responseCache st (generateCacheKey d Audio) of
            None \<Rightarrow> True | Some (b', t) \<Rightarrow> 5 * 60 * 1000 \<le> now_lookup - t"
      "speech_create prov
              (calls st @ [ChatCall (recent @ [user_message p, audioPrompt_message]) 150])
              (select_voice d) d = Inr b"
    for d b d' k'
    using that assms
    by (auto simp: generateText_def audio_flow_def generateAudio_cases generateAudio_try_def Let_def
        generateCacheKey_inj split: option.splits)
qed

lemma say_is_audio:
  "\<not> isImageRequest ''Say it with your voice''" "isAudioRequest ''Say it with your voice''"
  by (simp_all add: isImageRequest_def isAudioRequest_def regex_test_def canonicalize_def)

lemma after_speech_eq:
  "after_speech = \<lparr>responseCache = [''audio:a red fox'' \<mapsto> (''c291bmQ='', 1000)],
      calls = [ChatCall [user_message ''Say it with your voice'', audioPrompt_message] 150,
               SpeechCall Nova ''a red fox'']\<rparr>"
  using say_is_audio
  by (simp add: after_speech_def generateText_def audio_flow_def generateAudio_def
      generateAudio_try_def generateCacheKey_def context_provider_def fresh_state_def
      slice_last5_def select_voice_def Let_def)

theorem cache_key_is_completion_text_witness:
  "responseCache (snd (generateText context_provider 0 1000 ''Draw a picture of it'' (JArr []) fresh_state)) =
     (responseCache fresh_state)(generateCacheKey ''a red fox'' Image \<mapsto> (''Zm94'', 1000)) \<and>
   generateText context_provider 2000 3000 ''Show me a photo'' (JArr []) after_first =
     (Inr \<lparr>etype = Image, content = ''Here's the generated image based on your request.'',
           url = Some ''data:image/png;base64,Zm94''\<rparr>,
      after_first\<lparr>calls := calls after_first @
        [ChatCall [user_message ''Show me a photo'', imagePrompt_message] 150]\<rparr>) \<and>
   calls (snd (generateText context_provider 2000 3000 ''Draw a picture of it'' (JArr one_turn) after_first)) =
     calls after_first @
     [ChatCall (one_turn @ [user_message ''Draw a picture of it'', imagePrompt_message]) 150,
      ImageCall ''a blue whale''] \<and>
   responseCache (snd (generateText context_provider 0 1000 ''Say it with your voice'' (JArr []) fresh_state)) =
     (responseCache fresh_state)(generateCacheKey ''a red fox'' Audio \<mapsto> (''c291bmQ='', 1000)) \<and>
   generateText context_provider 2000 3000 ''Tell me with your voice'' (JArr []) after_speech =
     (Inr \<lparr>etype = Audio, content = ''a red fox'', url = Some ''data:audio/mp3;base64,c291bmQ=''\<rparr>,
      after_speech\<lparr>calls := calls after_speech @
        [ChatCall [user_message ''Tell me with your voice'', audioPrompt_message] 150]\<rparr>) \<and>
   generateCacheKey ''a red fox'' Image \<noteq> generateCacheKey ''a red fox'' Audio \<and>
   generateCacheKey ''a red fox'' Image \<noteq> generateCacheKey ''Draw a picture of it'' Image"
proof -
  have h: "recentHistory (JArr []) = Inr []" by (simp add: slice_last5_def)
  have h1: "recentHistory (JArr one_turn) = Inr one_turn"
    by (simp add: slice_last5_def one_turn_def)
  have show_is_image: "isImageRequest ''Show me a photo''"
    by (simp add: isImageRequest_def regex_test_def canonicalize_def)
  have tell_is_audio: "\<not> isImageRequest ''Tell me with your voice''"
      "isAudioRequest ''Tell me with your voice''"
    by (simp_all add: isImageRequest_def isAudioRequest_def regex_test_def canonicalize_def)
  note key = cache_key_is_completion_text [where prov = context_provider]
  have inj: "generateCacheKey d1 k1 = generateCacheKey d2 k2 \<longrightarrow> d1 = d2 \<and> k1 = k2"
    for d1 k1 d2 k2
    using key [OF h, THEN conjunct1] by blast
  \<comment> \<open>a first image request stores under the completion's text\<close>
  have pre1: "isImageRequest ''Draw a picture of it'' \<and>
      chat_create context_provider (calls fresh_state)
        ([] @ [user_message ''Draw a picture of it'', imagePrompt_message]) 150 = Inr (Some ''a red fox'') \<and>
      ''a red fox'' \<noteq> []"
    using draw_is_image by (simp add: context_provider_def)
  have ok1: "(case responseCache fresh_state (generateCacheKey ''a red fox'' Image) of
               None \<Rightarrow> True | Some (b', t) \<Rightarrow> 5 * 60 * 1000 \<le> 0 - t) \<and>
      images_generate context_provider
        (calls fresh_state @ [ChatCall ([] @ [user_message ''Draw a picture of it'', imagePrompt_message]) 150])
        ''a red fox'' = Inr (Some ''Zm94'') \<and> ''Zm94'' \<noteq> []"
    by (simp add: context_provider_def fresh_state_def)
  note store_image = key [OF h, THEN conjunct2, THEN conjunct1, THEN mp, OF pre1,
      THEN conjunct2, THEN conjunct2, THEN spec, THEN mp, OF ok1, THEN conjunct1]
  \<comment> \<open>another prompt with the same completion text is answered from the cache\<close>
  have pre2: "isImageRequest ''Show me a photo'' \<and>
      chat_create context_provider (calls after_first)
        ([] @ [user_message ''Show me a photo'', imagePrompt_message]) 150 = Inr (Some ''a red fox'') \<and>
      ''a red fox'' \<noteq> []"
    using show_is_image by (simp add: context_provider_def)
  have ok2: "responseCache after_first (generateCacheKey ''a red fox'' Image) = Some (''Zm94'', 1000) \<and>
      (2000::int) - 1000 < 5 * 60 * 1000"
    by (simp add: after_first_eq generateCacheKey_def)
  note hit_image = key [OF h, THEN conjunct2, THEN conjunct1, THEN mp, OF pre2,
      THEN conjunct1, THEN spec, THEN spec, THEN mp, OF ok2]
  \<comment> \<open>the same prompt with another completion text goes upstream\<close>
  have pre3: "isImageRequest ''Draw a picture of it'' \<and>
      chat_create context_provider (calls after_first)
        (one_turn @ [user_message ''Draw a picture of it'', imagePrompt_message]) 150 =
        Inr (Some ''a blue whale'') \<and>
      ''a blue whale'' \<noteq> []"
    using draw_is_image by (simp add: context_provider_def one_turn_def)
  have ok3: "case responseCache after_first (generateCacheKey ''a blue whale'' Image) of
               None \<Rightarrow> True | Some (b', t) \<Rightarrow> 5 * 60 * 1000 \<le> 2000 - t"
    by (simp add: after_first_eq generateCacheKey_def)
  note miss_image = key [OF h1, THEN conjunct2, THEN conjunct1, THEN mp, OF pre3,
      THEN conjunct2, THEN conjunct1, THEN mp, OF ok3]
  \<comment> \<open>the same for speech\<close>
  have pre4: "\<not> isImageRequest ''Say it with your voice'' \<and> isAudioRequest ''Say it with your voice'' \<and>
      chat_create context_provider (calls fresh_state)
        ([] @ [user_message ''Say it with your voice'', audioPrompt_message]) 150 = Inr (Some ''a red fox'') \<and>
      ''a red fox'' \<noteq> []"
    using say_is_audio by (simp add: context_provider_def)
  have ok4: "(case responseCache fresh_state (generateCacheKey ''a red fox'' Audio) of
               None \<Rightarrow> True | Some (b', t) \<Rightarrow> 5 * 60 * 1000 \<le> 0 - t) \<and>
      speech_create context_provider
        (calls fresh_state @ [ChatCall ([] @ [user_message ''Say it with your voice'', audioPrompt_message]) 150])
        (select_voice ''a red fox'') ''a red fox'' = Inr ''c291bmQ=''"
    by (simp add: context_provider_def fresh_state_def)
  note store_audio = key [OF h, THEN conjunct2, THEN conjunct2, THEN mp, OF pre4,
      THEN conjunct2, THEN conjunct2, THEN spec, THEN mp, OF ok4, THEN conjunct1]
  have pre5: "\<not> isImageRequest ''Tell me with your voice'' \<and> isAudioRequest ''Tell me with your voice'' \<and>
      chat_create context_provider (calls after_speech)
        ([] @ [user_message ''Tell me with your voice'', audioPrompt_message]) 150 = Inr (Some ''a red fox'') \<and>
      ''a red fox'' \<noteq> []"
    using tell_is_audio by (simp add: context_provider_def)
  have ok5: "responseCache after_speech (generateCacheKey ''a red fox'' Audio) = Some (''c291bmQ='', 1000) \<and>
      (2000::int) - 1000 < 5 * 60 * 1000"
    by (simp add: after_speech_eq generateCacheKey_def)
  note hit_audio = key [OF h, THEN conjunct2, THEN conjunct2, THEN mp, OF pre5,
      THEN conjunct1, THEN spec, THEN spec, THEN mp, OF ok5]
  have k1: "generateCacheKey ''a red fox'' Image \<noteq> generateCacheKey ''a red fox'' Audio"
    using inj [of "''a red fox''" Image "''a red fox''" Audio] by simp
  have k2: "generateCacheKey ''a red fox'' Image \<noteq> generateCacheKey ''Draw a picture of it'' Image"
    using inj [of "''a red fox''" Image "''Draw a picture of it''" Image] by simp
  show ?thesis
    using store_image hit_image miss_image store_audio hit_audio k1 k2
    by simp
qed

end
